theory Spec2Isabelle
  imports Complex_Main "HOL-Library.Monad_Syntax"
begin

section \<open>Numbers\<close>

text \<open>
  The library \<^verbatim>\<open>fsfvi-algorithms.ts\<close> computes with JavaScript numbers. They are
  modelled as \<^typ>\<open>real\<close>: every number is finite and arithmetic is exact, so rounding
  and overflow are abstracted away. A JavaScript division whose divisor is zero yields
  \<^verbatim>\<open>Infinity\<close>, \<^verbatim>\<open>-Infinity\<close> or \<^verbatim>\<open>NaN\<close>, none of which is a real
  number; a model function that reaches such a division returns \<^term>\<open>None\<close>, and
  nothing is stated about the run from there on. An optional field or argument
  (\<^verbatim>\<open>x?: T\<close>, \<^verbatim>\<open>T | null\<close>) is an \<^typ>\<open>'a option\<close>.
\<close>

definition divide_js :: "real \<Rightarrow> real \<Rightarrow> real option" where
  "divide_js x y = (if y = 0 then None else Some (x / y))"

section \<open>Data model\<close>

record Indicator =
  projectName :: string
  matchScore :: real
  expenditures :: real
  indValue :: "real option"
  benchmark :: "real option"
  performanceGap :: real

text \<open>
  \<^verbatim>\<open>Indicator.value\<close> is the field \<^const>\<open>indValue\<close>. The field
  \<^const>\<open>performanceGap\<close> is declared \<^verbatim>\<open>number\<close>, so it is a real number here.
\<close>

section \<open>Algorithm 1: performance gap of one indicator\<close>

definition calculatePerformanceGap :: "real option \<Rightarrow> real option \<Rightarrow> bool \<Rightarrow> real" where
  "calculatePerformanceGap v b preferHigher =
    (case v of
       None \<Rightarrow> 0
     | Some x \<Rightarrow>
        (case b of
           None \<Rightarrow> 0
         | Some bm \<Rightarrow>
            if x = 0 then (if bm = 0 then 0 else if preferHigher then 5 else 0)
            else if x < 0 \<and> bm < 0 then
              (let absValue = \<bar>x\<bar>; absBenchmark = \<bar>bm\<bar> in
               if preferHigher
               then (if absValue > absBenchmark then 0
                     else (absValue - absBenchmark) / absValue)
               else (if absValue < absBenchmark then 0
                     else (absBenchmark - absValue) / absValue))
            else if preferHigher
              then (if x \<ge> bm then 0 else (bm - x) / \<bar>x\<bar>)
              else (if x \<le> bm then 0 else (x - bm) / \<bar>x\<bar>)))"

text \<open>
  Every division above has the divisor \<open>\<bar>x\<bar>\<close> with \<open>x \<noteq> 0\<close>, the case \<open>x = 0\<close>
  having returned before; so the function is real-valued.
\<close>

section \<open>Algorithm 2: vulnerability of one component\<close>

definition calculateComponentVulnerability :: "real \<Rightarrow> real \<Rightarrow> real \<Rightarrow> real option" where
  "calculateComponentVulnerability gap financialAllocation sensitivityParameter =
    (let allocation = max 0 financialAllocation in
     map_option (\<lambda>q. gap * q) (divide_js 1 (1 + sensitivityParameter * allocation)))"

section \<open>Aggregation of the indicator gaps of one component\<close>

record GapOptions =
  useWeightedAverage :: "bool option"
  trimOutliers :: "bool option"
  capMaxGap :: "real option"
  usePercentileCapping :: "bool option"
  percentileThreshold :: "real option"
  perSubsectorCaps :: "(string \<times> real) list option"

text \<open>
  The \<^verbatim>\<open>options\<close> argument is itself optional. Every read of it goes through
  \<^verbatim>\<open>options?.field\<close>, and the recursive call spreads it into a new object, so an
  absent \<^verbatim>\<open>options\<close> behaves as the object with no field set.
\<close>

definition noGapOptions :: GapOptions where
  "noGapOptions = \<lparr>useWeightedAverage = None, trimOutliers = None, capMaxGap = None,
     usePercentileCapping = None, percentileThreshold = None, perSubsectorCaps = None\<rparr>"

definition gapOptionsOf :: "GapOptions option \<Rightarrow> GapOptions" where
  "gapOptionsOf opts = (case opts of None \<Rightarrow> noGapOptions | Some g \<Rightarrow> g)"

definition trimOutliersOf :: "GapOptions option \<Rightarrow> bool" where
  \<comment> \<open>\<^verbatim>\<open>options?.trimOutliers ?? true\<close>\<close>
  "trimOutliersOf opts = (case trimOutliers (gapOptionsOf opts) of None \<Rightarrow> True | Some t \<Rightarrow> t)"

definition useWeightedAverageOf :: "GapOptions option \<Rightarrow> bool" where
  \<comment> \<open>\<^verbatim>\<open>options?.useWeightedAverage ?? false\<close>\<close>
  "useWeightedAverageOf opts =
     (case useWeightedAverage (gapOptionsOf opts) of None \<Rightarrow> False | Some w \<Rightarrow> w)"

definition configuredCap :: "GapOptions option \<Rightarrow> string option \<Rightarrow> real" where
  \<comment> \<open>The cap before percentile capping: \<^verbatim>\<open>options?.capMaxGap ?? 8.0\<close>, replaced by the
      subsector's own cap when the subsector id, the table and the entry are all truthy
      (a non-empty id, an entry other than \<open>0\<close>).\<close>
  "configuredCap opts subsectorId =
     (let cap0 = (case capMaxGap (gapOptionsOf opts) of None \<Rightarrow> 8 | Some c \<Rightarrow> c) in
      case subsectorId of
        None \<Rightarrow> cap0
      | Some sid \<Rightarrow>
         if sid = [] then cap0
         else (case perSubsectorCaps (gapOptionsOf opts) of
                 None \<Rightarrow> cap0
               | Some caps \<Rightarrow>
                  (case map_of caps sid of
                     None \<Rightarrow> cap0
                   | Some c \<Rightarrow> if c = 0 then cap0 else c)))"

definition percentileCap :: "GapOptions option \<Rightarrow> Indicator list \<Rightarrow> real \<Rightarrow> real" where
  \<comment> \<open>Percentile capping of the valid indicators; \<open>cap\<close> is the cap so far.\<close>
  "percentileCap opts validIndicators cap =
     (if usePercentileCapping (gapOptionsOf opts) = Some True \<and> length validIndicators \<ge> 3
      then
        (let threshold = (case percentileThreshold (gapOptionsOf opts) of
                            None \<Rightarrow> 95 | Some t \<Rightarrow> t);
             sortedGaps = map performanceGap (sort_key performanceGap validIndicators);
             thresholdIndex = \<lfloor>real (length sortedGaps) * threshold / 100\<rfloor>
         in if thresholdIndex > 0 \<and> thresholdIndex < int (length sortedGaps)
            then sortedGaps ! nat thresholdIndex
            else cap)
      else cap)"

definition capIndicators :: "real \<Rightarrow> Indicator list \<Rightarrow> Indicator list" where
  "capIndicators cap validIndicators =
     map (\<lambda>i. i\<lparr>performanceGap := min (performanceGap i) cap\<rparr>) validIndicators"

definition trimCountOf :: "nat \<Rightarrow> nat" where
  \<comment> \<open>\<^verbatim>\<open>Math.floor(cappedIndicators.length * 0.1)\<close>\<close>
  "trimCountOf n = nat \<lfloor>real n * (1 / 10)\<rfloor>"

definition trimIndicators :: "Indicator list \<Rightarrow> Indicator list" where
  \<comment> \<open>Sort by gap (the sort is stable), then \<^verbatim>\<open>slice(trimCount, length - trimCount)\<close>.\<close>
  "trimIndicators cappedIndicators =
     (let sorted = sort_key performanceGap cappedIndicators;
          trimCount = trimCountOf (length sorted)
      in drop trimCount (take (length sorted - trimCount) sorted))"

definition matchWeight :: "Indicator \<Rightarrow> real" where
  \<comment> \<open>\<^verbatim>\<open>indicator.matchScore || 1\<close>\<close>
  "matchWeight i = (if matchScore i = 0 then 1 else matchScore i)"

definition reduceGaps :: "bool \<Rightarrow> Indicator list \<Rightarrow> real" where
  \<comment> \<open>The final reduction; it is only reached with a non-empty list.\<close>
  "reduceGaps weighted cappedIndicators =
     (if weighted then
        (let totalWeight = sum_list (map matchWeight cappedIndicators);
             weightedSum = sum_list (map (\<lambda>i. performanceGap i * matchWeight i) cappedIndicators)
         in if totalWeight > 0 then weightedSum / totalWeight else 0)
      else sum_list (map performanceGap cappedIndicators) / real (length cappedIndicators))"

datatype gapBranch = NoValidIndicators | TrimFallback | TrimRecursion | Reduction

text \<open>
  \<^verbatim>\<open>calculateComponentAverageGap\<close> calls itself, with trimming switched off, from two
  places: on the original indicators when trimming left nothing (\<^const>\<open>TrimFallback\<close>),
  and on the trimmed indicators otherwise (\<^const>\<open>TrimRecursion\<close>). The model returns
  the function's value together with the branch taken by each nested call, outermost
  first.
\<close>

function calculateComponentAverageGap_trace ::
  "Indicator list \<Rightarrow> GapOptions option \<Rightarrow> string option \<Rightarrow> real \<times> gapBranch list" where
  "calculateComponentAverageGap_trace inds opts subsectorId =
     (let validIndicators = filter (\<lambda>i. performanceGap i \<ge> 0) inds in
      if validIndicators = [] then (0, [NoValidIndicators])
      else
        (let cap = percentileCap opts validIndicators (configuredCap opts subsectorId);
             cappedIndicators = capIndicators cap validIndicators
         in if trimOutliersOf opts \<and> length cappedIndicators > 5 then
              (let trimmedIndicators = trimIndicators cappedIndicators;
                   opts' = Some ((gapOptionsOf opts)\<lparr>trimOutliers := Some False\<rparr>)
               in if trimmedIndicators = [] then
                    (let r = calculateComponentAverageGap_trace inds opts' subsectorId
                     in (fst r, TrimFallback # snd r))
                  else
                    (let r = calculateComponentAverageGap_trace trimmedIndicators opts' subsectorId
                     in (fst r, TrimRecursion # snd r)))
            else (reduceGaps (useWeightedAverageOf opts) cappedIndicators, [Reduction])))"
  by pat_completeness auto
termination
  by (relation "measure (\<lambda>(inds, opts, sid). if trimOutliersOf opts then 1 else 0)")
     (auto simp: trimOutliersOf_def gapOptionsOf_def)

definition calculateComponentAverageGap ::
  "Indicator list \<Rightarrow> GapOptions option \<Rightarrow> string option \<Rightarrow> real" where
  "calculateComponentAverageGap inds opts subsectorId =
     fst (calculateComponentAverageGap_trace inds opts subsectorId)"

section \<open>Components, datasets and configuration\<close>

record FSFVIComponent =
  compId :: string
  compName :: string
  indicators :: "Indicator list"
  totalExpenditures :: real
  averagePerformanceGap :: real
  sensitivityParameter :: "real option"
  weight :: "real option"
  vulnerability :: "real option"

text \<open>
  \<^const>\<open>compId\<close> and \<^const>\<open>compName\<close> are the fields \<^verbatim>\<open>id\<close> and \<^verbatim>\<open>name\<close>.
  A \<^verbatim>\<open>Record<string, T>\<close> is an association list in the order of its keys; a
  JavaScript object holds each key once, so the keys of a well-formed list are distinct.
  \<^verbatim>\<open>Object.values(r)\<close> is \<^term>\<open>map snd r\<close>, and \<^verbatim>\<open>r[k]\<close> is \<^term>\<open>map_of r k\<close> for a
  key \<open>k\<close> that the object holds.
\<close>

type_synonym subsectorTable = "(string \<times> FSFVIComponent) list"

definition objectPrototypeMembers :: "string list" where
  \<comment> \<open>The property names of \<^verbatim>\<open>Object.prototype\<close>.\<close>
  "objectPrototypeMembers =
    [''constructor'', ''hasOwnProperty'', ''isPrototypeOf'', ''propertyIsEnumerable'',
     ''toLocaleString'', ''toString'', ''valueOf'', ''__proto__'',
     ''__defineGetter__'', ''__defineSetter__'', ''__lookupGetter__'', ''__lookupSetter__'']"

datatype 'a member = OwnValue 'a | InheritedMember | NoMember

definition memberOf :: "(string \<times> 'a) list \<Rightarrow> string \<Rightarrow> 'a member" where
  \<comment> \<open>\<^verbatim>\<open>table[key]\<close> on an object whose prototype is \<^verbatim>\<open>Object.prototype\<close>\<close>
  "memberOf table key =
     (case map_of table key of
        Some v \<Rightarrow> OwnValue v
      | None \<Rightarrow> if key \<in> set objectPrototypeMembers then InheritedMember else NoMember)"

text \<open>
  Reading a key that an object written as a literal does not hold is \<^verbatim>\<open>undefined\<close>
  unless the key names a member that every such object inherits from
  \<^verbatim>\<open>Object.prototype\<close>: then the read yields that member, a function, or the
  prototype itself under \<^verbatim>\<open>__proto__\<close>. Such a value is truthy and not a number, and
  arithmetic with it yields \<^verbatim>\<open>NaN\<close>. The tables of baseline sensitivities, of base
  weights and of working weights are read with keys of the caller, and
  \<^const>\<open>memberOf\<close> is that read. The table of metric preferences is read so too, but
  there a truthy member counts as the default \<^verbatim>\<open>true\<close>. The key under which a
  per-subsector cap is looked up is taken not to name an inherited member; the pipeline
  of \<^verbatim>\<open>computeFSFVI\<close> passes no per-subsector caps on.

  Writing a number under a key stores it, except under \<^verbatim>\<open>__proto__\<close>, where the
  inherited setter takes the value and the object gets no entry. The pipeline writes each
  component under its key; for a table with a component under \<^verbatim>\<open>__proto__\<close> the
  model of the pipeline has no result, the sensitivity estimated for that key not being a
  number.
\<close>

record FSFVIData =
  subsectors :: subsectorTable
  totalBudget :: real

record ContextualFactors =
  climateEmergency :: "bool option"
  foodCrisis :: "bool option"
  nutritionCrisis :: "bool option"
  marketDevelopment :: "bool option"

record FSFVIConfig =
  policyPriorities :: "(string \<times> real) list option"
  contextualFactors :: "ContextualFactors option"
  gapCalculation :: "GapOptions option"
  metricPreference :: "(string \<times> bool) list option"

section \<open>Preprocessing\<close>

definition defaultMetricPreferences :: "(string \<times> bool) list" where
  "defaultMetricPreferences =
    [(''Food availability'', True),
     (''Food security'', True),
     (''Production systems and input supply'', True),
     (''Processing and packaging'', True),
     (''Retail and marketing'', True),
     (''Nutritional status'', True),
     (''Environmental impacts'', False),
     (''Environment and climate change'', False),
     (''Resilience'', True),
     (''Storage and distribution'', True)]"

definition preferHigherOf :: "(string \<times> bool) list option \<Rightarrow> string \<Rightarrow> bool" where
  \<comment> \<open>The defaults spread first and the caller's preferences over them; a key in neither
      prefers higher values.\<close>
  "preferHigherOf prefs key =
     (case map_of ((case prefs of None \<Rightarrow> [] | Some p \<Rightarrow> p) @ defaultMetricPreferences) key of
        None \<Rightarrow> True
      | Some b \<Rightarrow> b)"

definition processIndicator :: "bool \<Rightarrow> Indicator \<Rightarrow> Indicator" where
  \<comment> \<open>A gap that is a number \<open>\<ge> 0\<close> is kept; any other is recomputed.\<close>
  "processIndicator preferHigher i =
     (if performanceGap i \<ge> 0 then i
      else i\<lparr>performanceGap := calculatePerformanceGap (indValue i) (benchmark i) preferHigher\<rparr>)"

definition preprocessData ::
  "FSFVIData \<Rightarrow> GapOptions option \<Rightarrow> (string \<times> bool) list option \<Rightarrow> FSFVIData" where
  \<comment> \<open>The second and third arguments are \<^verbatim>\<open>options?.gapCalculation\<close> and
      \<^verbatim>\<open>options?.metricPreference\<close>.\<close>
  "preprocessData d gapOpts prefs =
     \<lparr>subsectors =
        map (\<lambda>(key, subsector).
               let processedIndicators =
                     map (processIndicator (preferHigherOf prefs key)) (indicators subsector)
               in (key, subsector\<lparr>indicators := processedIndicators,
                                  averagePerformanceGap :=
                                    calculateComponentAverageGap processedIndicators gapOpts (Some key)\<rparr>))
            (subsectors d),
      totalBudget = totalBudget d\<rparr>"

section \<open>Sensitivity parameters\<close>

definition baselineSensitivity :: "(string \<times> real) list" where
  "baselineSensitivity =
    [(''Food availability'', 70 / 100),
     (''Storage and distribution'', 65 / 100),
     (''Processing and packaging'', 60 / 100),
     (''Retail and marketing'', 60 / 100),
     (''Production systems and input supply'', 50 / 100),
     (''Nutritional status'', 45 / 100),
     (''Food security'', 40 / 100),
     (''Resilience'', 30 / 100),
     (''Environmental impacts'', 25 / 100),
     (''Environment and climate change'', 20 / 100)]"

definition baselineOf :: "string \<Rightarrow> real option" where
  \<comment> \<open>\<^verbatim>\<open>baselineSensitivity[key] || defaultSensitivity\<close>; every entry of the table is
      truthy, and so is an inherited member, which is not a number.\<close>
  "baselineOf key =
     (case memberOf baselineSensitivity key of
        OwnValue b \<Rightarrow> Some b
      | InheritedMember \<Rightarrow> None
      | NoMember \<Rightarrow> Some (40 / 100))"

definition adjustSensitivity :: "real \<Rightarrow> FSFVIComponent \<Rightarrow> real" where
  \<comment> \<open>The adjustments and the clamp, from the baseline \<open>e0\<close>.\<close>
  "adjustSensitivity e0 subsector =
     (let n = real (length (indicators subsector));
          e1 = (if length (indicators subsector) > 10 then e0 - (15 / 100) * (n / 20) else e0);
          normalizedExpenditure = totalExpenditures subsector / 100;
          e2 = (if normalizedExpenditure > 1 / 2
                then e1 + (10 / 100) * min normalizedExpenditure 1 else e1);
          e3 = (if averagePerformanceGap subsector > 1
                then e2 - (20 / 100) * min (averagePerformanceGap subsector / 3) 1 else e2)
      in max (1 / 10) (min (8 / 10) e3))"

definition estimateSensitivity :: "string \<Rightarrow> FSFVIComponent \<Rightarrow> real option" where
  \<comment> \<open>\<^term>\<open>None\<close> when the estimate is \<^verbatim>\<open>NaN\<close>: the baseline is not a number.\<close>
  "estimateSensitivity key subsector =
     map_option (\<lambda>e0. adjustSensitivity e0 subsector) (baselineOf key)"

definition estimateSensitivityParameters :: "subsectorTable \<Rightarrow> subsectorTable option" where
  "estimateSensitivityParameters subs =
     those (map (\<lambda>(key, subsector).
                   map_option (\<lambda>e. (key, subsector\<lparr>sensitivityParameter := Some e\<rparr>))
                     (estimateSensitivity key subsector))
                subs)"

section \<open>Weights\<close>

definition baseWeights :: "(string \<times> real) list" where
  "baseWeights =
    [(''Food availability'', 18 / 100),
     (''Food security'', 15 / 100),
     (''Resilience'', 12 / 100),
     (''Environment and climate change'', 10 / 100),
     (''Production systems and input supply'', 10 / 100),
     (''Storage and distribution'', 9 / 100),
     (''Processing and packaging'', 7 / 100),
     (''Retail and marketing'', 7 / 100),
     (''Environmental impacts'', 6 / 100),
     (''Nutritional status'', 6 / 100)]"

definition baseWeightOf :: "string \<Rightarrow> real option" where
  \<comment> \<open>\<^verbatim>\<open>baseWeights[key] || defaultWeight\<close>; every entry of the table is truthy, and so
      is an inherited member, which is not a number.\<close>
  "baseWeightOf key =
     (case memberOf baseWeights key of
        OwnValue w \<Rightarrow> Some w
      | InheritedMember \<Rightarrow> None
      | NoMember \<Rightarrow> Some (25 / 1000))"

fun initialWorkingWeights :: "subsectorTable \<Rightarrow> (string \<times> real) list option" where
  \<comment> \<open>\<^verbatim>\<open>workingWeights[key] = baseWeights[key] || defaultWeight\<close> for every key of the
      components, in their order; \<^term>\<open>None\<close> when a working weight is not a number.
      Under the key \<^verbatim>\<open>__proto__\<close> the assignment stores nothing: it hands the inherited
      prototype to the inherited setter, and the working weights get no entry.\<close>
  "initialWorkingWeights [] = Some []"
| "initialWorkingWeights ((key, subsector) # subs) =
     (if key = ''__proto__'' then initialWorkingWeights subs
      else do { w \<leftarrow> baseWeightOf key;
                workingWeights \<leftarrow> initialWorkingWeights subs;
                Some ((key, w) # workingWeights) })"

definition scaleWeight ::
  "real \<Rightarrow> string \<Rightarrow> (string \<times> real) list \<Rightarrow> (string \<times> real) list option" where
  \<comment> \<open>\<^verbatim>\<open>if (workingWeights[key] !== undefined) workingWeights[key] *= factor\<close>. On a key
      that the working weights hold, the entry is multiplied. A key they do not hold but
      inherit is not \<^verbatim>\<open>undefined\<close> either: the product is \<^verbatim>\<open>NaN\<close> and is stored as a
      new entry, which the total then includes; only under \<^verbatim>\<open>__proto__\<close> the
      assignment of a number stores nothing.\<close>
  "scaleWeight factor key workingWeights =
     (case memberOf workingWeights key of
        OwnValue v \<Rightarrow>
          Some (map (\<lambda>(k, w). if k = key then (k, w * factor) else (k, w)) workingWeights)
      | InheritedMember \<Rightarrow> if key = ''__proto__'' then Some workingWeights else None
      | NoMember \<Rightarrow> Some workingWeights)"

fun scaleWeights ::
  "real \<Rightarrow> string list \<Rightarrow> (string \<times> real) list \<Rightarrow> (string \<times> real) list option" where
  "scaleWeights factor [] workingWeights = Some workingWeights"
| "scaleWeights factor (key # keys) workingWeights =
     Option.bind (scaleWeight factor key workingWeights) (scaleWeights factor keys)"

fun applyPriorities ::
  "(string \<times> real) list \<Rightarrow> (string \<times> real) list \<Rightarrow> (string \<times> real) list option" where
  \<comment> \<open>\<^verbatim>\<open>Object.keys(priorities).forEach(...)\<close>\<close>
  "applyPriorities [] workingWeights = Some workingWeights"
| "applyPriorities ((key, p) # priorities) workingWeights =
     Option.bind (scaleWeight p key workingWeights) (applyPriorities priorities)"

definition boost :: "bool option \<Rightarrow> real \<Rightarrow> string list \<Rightarrow> (string \<times> real) list
    \<Rightarrow> (string \<times> real) list option" where
  \<comment> \<open>One contextual factor: when the flag is set, every named component present is
      multiplied by the factor.\<close>
  "boost flag factor names workingWeights =
     (if flag = Some True then scaleWeights factor names workingWeights
      else Some workingWeights)"

definition workingWeightsOf ::
  "subsectorTable \<Rightarrow> (string \<times> real) list option \<Rightarrow> ContextualFactors option
    \<Rightarrow> (string \<times> real) list option" where
  \<comment> \<open>The working weights before normalization; \<^term>\<open>None\<close> when one of them is not a
      number.\<close>
  "workingWeightsOf subs priorities factors =
     do { w0 \<leftarrow> initialWorkingWeights subs;
          w1 \<leftarrow> (case priorities of
                   None \<Rightarrow> Some w0
                 | Some ps \<Rightarrow> applyPriorities ps w0);
          case factors of
            None \<Rightarrow> Some w1
          | Some f \<Rightarrow>
             do { w2 \<leftarrow> boost (climateEmergency f) (15 / 10)
                         [''Environment and climate change'', ''Environmental impacts'',
                          ''Resilience''] w1;
                  w3 \<leftarrow> boost (foodCrisis f) (18 / 10)
                         [''Food availability'', ''Food security'', ''Storage and distribution'']
                         w2;
                  w4 \<leftarrow> boost (nutritionCrisis f) (17 / 10)
                         [''Nutritional status'', ''Food security''] w3;
                  boost (marketDevelopment f) (14 / 10)
                    [''Retail and marketing'', ''Processing and packaging'',
                     ''Storage and distribution''] w4 } }"

definition assignComponentWeights ::
  "subsectorTable \<Rightarrow> (string \<times> real) list option \<Rightarrow> ContextualFactors option
    \<Rightarrow> subsectorTable option" where
  \<comment> \<open>The arguments after the table are \<^verbatim>\<open>config?.policyPriorities\<close> and
      \<^verbatim>\<open>config?.contextualFactors\<close>. The result is \<^term>\<open>None\<close> when a weight is not a
      finite number: a working weight is not a number, the total weight is \<open>0\<close>, or the
      working weights hold no entry for a component, so that \<^verbatim>\<open>workingWeights[key]\<close> is
      \<^verbatim>\<open>undefined\<close> or an inherited member.\<close>
  "assignComponentWeights subs priorities factors =
     do { workingWeights \<leftarrow> workingWeightsOf subs priorities factors;
          let totalWeight = sum_list (map snd workingWeights);
          those (map (\<lambda>(key, subsector).
                        do { w \<leftarrow> map_of workingWeights key;
                             q \<leftarrow> divide_js w totalWeight;
                             Some (key, subsector\<lparr>weight := Some q\<rparr>) })
                     subs) }"

section \<open>Vulnerabilities and the system index\<close>

definition withVulnerability :: "real \<Rightarrow> FSFVIComponent \<Rightarrow> FSFVIComponent option" where
  \<comment> \<open>The component with its vulnerability recomputed at the given allocation;
      \<^term>\<open>None\<close> when the vulnerability is not a finite number (no sensitivity
      parameter, or a zero divisor).\<close>
  "withVulnerability allocation subsector =
     do { s \<leftarrow> sensitivityParameter subsector;
          v \<leftarrow> calculateComponentVulnerability (averagePerformanceGap subsector) allocation s;
          Some (subsector\<lparr>vulnerability := Some v\<rparr>) }"

definition calculateVulnerabilities :: "FSFVIData \<Rightarrow> FSFVIConfig option \<Rightarrow> FSFVIData option" where
  "calculateVulnerabilities d config =
     (let dataWithGaps = preprocessData d (Option.bind config gapCalculation)
                           (Option.bind config metricPreference)
      in do { subsectorsWithSensitivity \<leftarrow>
                estimateSensitivityParameters (subsectors dataWithGaps);
              subsectorsWithWeights \<leftarrow>
                assignComponentWeights subsectorsWithSensitivity
                  (Option.bind config policyPriorities) (Option.bind config contextualFactors);
              subs \<leftarrow> those (map (\<lambda>(key, subsector).
                                      map_option (Pair key)
                                        (withVulnerability (totalExpenditures subsector) subsector))
                                   subsectorsWithWeights);
              Some (d\<lparr>subsectors := subs\<rparr>) })"

definition calculateFSFVI :: "subsectorTable \<Rightarrow> real" where
  \<comment> \<open>Algorithm 3, on \<^verbatim>\<open>data.subsectors\<close>: a subsector without a weight or without a
      vulnerability is skipped.\<close>
  "calculateFSFVI subs =
     sum_list (map (\<lambda>(key, subsector).
                      case weight subsector of
                        None \<Rightarrow> 0
                      | Some w \<Rightarrow> (case vulnerability subsector of
                                     None \<Rightarrow> 0
                                   | Some v \<Rightarrow> w * v))
                   subs)"

record FSFVIResult =
  fsfviValue :: real
  processedData :: FSFVIData
  configurationUsed :: FSFVIConfig

definition effectiveConfigOf :: "FSFVIConfig option \<Rightarrow> FSFVIConfig" where
  "effectiveConfigOf config =
     \<lparr>policyPriorities =
        Some (case Option.bind config policyPriorities of None \<Rightarrow> [] | Some ps \<Rightarrow> ps),
      contextualFactors =
        Some (case Option.bind config contextualFactors of
                None \<Rightarrow> \<lparr>climateEmergency = None, foodCrisis = None,
                          nutritionCrisis = None, marketDevelopment = None\<rparr>
              | Some f \<Rightarrow> f),
      gapCalculation =
        (let g = Option.bind config gapCalculation in
         Some \<lparr>useWeightedAverage =
                 Some (case Option.bind g useWeightedAverage of None \<Rightarrow> False | Some b \<Rightarrow> b),
               trimOutliers =
                 Some (case Option.bind g trimOutliers of None \<Rightarrow> True | Some b \<Rightarrow> b),
               capMaxGap = Some (case Option.bind g capMaxGap of None \<Rightarrow> 5 | Some c \<Rightarrow> c),
               usePercentileCapping = None,
               percentileThreshold = None,
               perSubsectorCaps = None\<rparr>),
      metricPreference =
        Some (case Option.bind config metricPreference of None \<Rightarrow> [] | Some m \<Rightarrow> m)\<rparr>"

definition computeFSFVI :: "FSFVIData \<Rightarrow> FSFVIConfig option \<Rightarrow> FSFVIResult option" where
  \<comment> \<open>The diagnostics' table of sector contributions is left out: nothing reads it.\<close>
  "computeFSFVI d config =
     (let effectiveConfig = effectiveConfigOf config;
          preprocessedData = preprocessData d (gapCalculation effectiveConfig)
                               (metricPreference effectiveConfig)
      in do { dataWithVulnerabilities \<leftarrow>
                calculateVulnerabilities preprocessedData (Some effectiveConfig);
              Some \<lparr>fsfviValue = calculateFSFVI (subsectors dataWithVulnerabilities),
                    processedData = dataWithVulnerabilities,
                    configurationUsed = effectiveConfig\<rparr> })"

section \<open>Algorithm 4: the allocation optimizer\<close>

text \<open>
  The optimizer keeps several tables keyed by component id. A loop
  \<^verbatim>\<open>componentIds.forEach(id => table[id] = e)\<close> builds, or overwrites in place, the
  table with the keys \<^verbatim>\<open>componentIds\<close> in their order; \<^term>\<open>forEachId ids f\<close> is that
  table, and \<^term>\<open>None\<close> when some entry is not a finite number (a key that is read
  is missing, so that the value is \<^verbatim>\<open>undefined\<close>, or a divisor is zero).
\<close>

definition forEachId :: "string list \<Rightarrow> (string \<Rightarrow> 'a option) \<Rightarrow> (string \<times> 'a) list option" where
  "forEachId ids f = those (map (\<lambda>cid. map_option (Pair cid) (f cid)) ids)"

record OptimizerSetup =
  budget :: real
  componentIds :: "string list"
  minAllocations :: "(string \<times> real) list"
  maxAllocations :: "(string \<times> real) list"

text \<open>
  \<^const>\<open>budget\<close> is the local \<^verbatim>\<open>totalBudget\<close>. The loop's variables are the fields of
  \<^verbatim>\<open>OptimizerState\<close>; \<^verbatim>\<open>prevFSFVI\<close> starts as \<^verbatim>\<open>Infinity\<close>, which is
  \<^term>\<open>None\<close>. The counter \<^verbatim>\<open>iteration\<close> is not a field: the loop function counts
  the iterations that are left, \<^verbatim>\<open>maxIterations - iteration\<close>.
\<close>

record OptimizerState =
  currentAllocations :: "(string \<times> real) list"
  workingSubsectors :: subsectorTable
  currentFSFVI :: real
  prevFSFVI :: "real option"
  learningRate :: real

definition gradientOf :: "FSFVIComponent \<Rightarrow> real \<Rightarrow> real option" where
  \<comment> \<open>\<^verbatim>\<open>-1 * performanceGap * sensitivityParam / Math.pow(1 + sensitivityParam * currentAllocation, 2) * weight\<close>\<close>
  "gradientOf component currentAllocation =
     do { s \<leftarrow> sensitivityParameter component;
          w \<leftarrow> weight component;
          q \<leftarrow> divide_js (- 1 * averagePerformanceGap component * s)
                 ((1 + s * currentAllocation)\<^sup>2);
          Some (q * w) }"

definition gradientsOf :: "OptimizerSetup \<Rightarrow> OptimizerState \<Rightarrow> (string \<times> real) list option" where
  "gradientsOf su st =
     forEachId (componentIds su)
       (\<lambda>cid. do { component \<leftarrow> map_of (workingSubsectors st) cid;
                   currentAllocation \<leftarrow> map_of (currentAllocations st) cid;
                   gradientOf component currentAllocation })"

definition totalGradientMagnitudeOf :: "(string \<times> real) list \<Rightarrow> real" where
  "totalGradientMagnitudeOf gradients = sum_list (map (\<lambda>g. \<bar>g\<bar>) (map snd gradients))"

definition tentativeAllocation ::
  "real \<Rightarrow> real \<Rightarrow> real \<Rightarrow> real \<Rightarrow> real \<Rightarrow> real \<Rightarrow> real \<Rightarrow> real" where
  \<comment> \<open>Only used with a total gradient magnitude other than \<open>0\<close>: the loop has left before.\<close>
  "tentativeAllocation rate totalBudget' totalGradientMagnitude gradient currentAllocation
       minAllocation maxAllocation =
     (let normalizedGradient = gradient / totalGradientMagnitude;
          adjustmentFactor = rate * normalizedGradient;
          newAllocation = currentAllocation - adjustmentFactor * totalBudget'
      in min (max newAllocation minAllocation) maxAllocation)"

definition tentativeAllocationsOf ::
  "OptimizerSetup \<Rightarrow> OptimizerState \<Rightarrow> (string \<times> real) list \<Rightarrow> (string \<times> real) list option" where
  "tentativeAllocationsOf su st gradients =
     forEachId (componentIds su)
       (\<lambda>cid. do { g \<leftarrow> map_of gradients cid;
                   a \<leftarrow> map_of (currentAllocations st) cid;
                   lo \<leftarrow> map_of (minAllocations su) cid;
                   hi \<leftarrow> map_of (maxAllocations su) cid;
                   Some (tentativeAllocation (learningRate st) (budget su)
                           (totalGradientMagnitudeOf gradients) g a lo hi) })"

definition rescaledAllocation :: "real \<Rightarrow> real \<Rightarrow> real \<Rightarrow> real" where
  \<comment> \<open>The tentative allocation times the scale factor, raised to the minimum when below it.\<close>
  "rescaledAllocation scaleFactor tentative minAllocation =
     (let a = tentative * scaleFactor in if a < minAllocation then minAllocation else a)"

definition rescaleToBudget ::
  "OptimizerSetup \<Rightarrow> (string \<times> real) list \<Rightarrow> (string \<times> real) list option" where
  \<comment> \<open>The scale factor is \<^verbatim>\<open>totalBudget / tentativeTotalAllocation\<close>; with a zero
      divisor no product with it is a finite number.\<close>
  "rescaleToBudget su tentativeAllocations =
     (let tentativeTotalAllocation = sum_list (map snd tentativeAllocations) in
      forEachId (componentIds su)
        (\<lambda>cid. do { scaleFactor \<leftarrow> divide_js (budget su) tentativeTotalAllocation;
                    t \<leftarrow> map_of tentativeAllocations cid;
                    lo \<leftarrow> map_of (minAllocations su) cid;
                    Some (rescaledAllocation scaleFactor t lo) }))"

definition addToEntry :: "real \<Rightarrow> string \<Rightarrow> (string \<times> real) list \<Rightarrow> (string \<times> real) list" where
  \<comment> \<open>\<^verbatim>\<open>table[id] += x\<close> on a key the table has\<close>
  "addToEntry x cid table = map (\<lambda>(k, v). if k = cid then (k, v + x) else (k, v)) table"

definition adjustableComponentsOf ::
  "OptimizerSetup \<Rightarrow> (string \<times> real) list \<Rightarrow> string list option" where
  "adjustableComponentsOf su allocations =
     map_option (\<lambda>flags. map fst (filter snd flags))
       (forEachId (componentIds su)
          (\<lambda>cid. do { a \<leftarrow> map_of allocations cid;
                      lo \<leftarrow> map_of (minAllocations su) cid;
                      hi \<leftarrow> map_of (maxAllocations su) cid;
                      Some (a > lo \<and> a < hi) }))"

definition redistribute ::
  "OptimizerSetup \<Rightarrow> (string \<times> real) list \<Rightarrow> (string \<times> real) list option" where
  "redistribute su allocations =
     (let currentTotal = sum_list (map snd allocations);
          remainingBudget = budget su - currentTotal
      in if \<bar>remainingBudget\<bar> > 1 / 1000 then
           do { adjustableComponents \<leftarrow> adjustableComponentsOf su allocations;
                if adjustableComponents \<noteq> [] then
                  (let adjustmentPerComponent =
                         remainingBudget / real (length adjustableComponents)
                   in Some (fold (addToEntry adjustmentPerComponent) adjustableComponents
                              allocations))
                else Some allocations }
         else Some allocations)"

definition updateWorkingData ::
  "string list \<Rightarrow> subsectorTable \<Rightarrow> (string \<times> real) list \<Rightarrow> subsectorTable option" where
  "updateWorkingData ids working allocations =
     forEachId ids
       (\<lambda>cid. do { component \<leftarrow> map_of working cid;
                   a \<leftarrow> map_of allocations cid;
                   withVulnerability a (component\<lparr>totalExpenditures := a\<rparr>) })"

definition adaptiveStep :: "OptimizerState \<Rightarrow> OptimizerState" where
  \<comment> \<open>The end of an iteration; \<^const>\<open>currentFSFVI\<close> holds the recomputed index.
      Any number is below \<^verbatim>\<open>Infinity\<close>.\<close>
  "adaptiveStep st =
     (case prevFSFVI st of
        None \<Rightarrow> st\<lparr>learningRate := learningRate st * (11 / 10)\<rparr>
      | Some prev \<Rightarrow>
         if currentFSFVI st < prev
         then st\<lparr>learningRate := learningRate st * (11 / 10)\<rparr>
         else st\<lparr>learningRate := learningRate st * (1 / 2), currentFSFVI := prev\<rparr>)"

definition proposeAllocations ::
  "OptimizerSetup \<Rightarrow> OptimizerState \<Rightarrow> (string \<times> real) list \<Rightarrow> (string \<times> real) list option" where
  \<comment> \<open>The allocations an iteration computes from its gradients: proposal and clamping,
      rescaling to the budget, redistribution of the remainder.\<close>
  "proposeAllocations su st gradients =
     do { tentativeAllocations \<leftarrow> tentativeAllocationsOf su st gradients;
          scaled \<leftarrow> rescaleToBudget su tentativeAllocations;
          redistribute su scaled }"

datatype iterationOutcome = NoImprovementPossible OptimizerState | Iterated OptimizerState

definition optimizerIteration :: "OptimizerSetup \<Rightarrow> OptimizerState \<Rightarrow> iterationOutcome option" where
  \<comment> \<open>One run of the loop body; \<^const>\<open>NoImprovementPossible\<close> is the \<^verbatim>\<open>break\<close>.\<close>
  "optimizerIteration su st =
     (let st1 = st\<lparr>prevFSFVI := Some (currentFSFVI st)\<rparr> in
      do { gradients \<leftarrow> gradientsOf su st1;
           if totalGradientMagnitudeOf gradients = 0 then Some (NoImprovementPossible st1)
           else
             do { allocations \<leftarrow> proposeAllocations su st1 gradients;
                  working \<leftarrow> updateWorkingData (componentIds su) (workingSubsectors st1)
                              allocations;
                  Some (Iterated (adaptiveStep
                    (st1\<lparr>currentAllocations := allocations,
                         workingSubsectors := working,
                         currentFSFVI := calculateFSFVI working\<rparr>))) } })"

definition stillImproving :: "OptimizerState \<Rightarrow> bool" where
  \<comment> \<open>\<^verbatim>\<open>(prevFSFVI - currentFSFVI) > minImprovement\<close>\<close>
  "stillImproving st =
     (case prevFSFVI st of None \<Rightarrow> True | Some prev \<Rightarrow> prev - currentFSFVI st > 1 / 10000)"

fun optimizationLoop :: "OptimizerSetup \<Rightarrow> nat \<Rightarrow> OptimizerState \<Rightarrow> OptimizerState option" where
  "optimizationLoop su 0 st = Some st"
| "optimizationLoop su (Suc n) st =
     (if stillImproving st then
        (case optimizerIteration su st of
           None \<Rightarrow> None
         | Some (NoImprovementPossible st') \<Rightarrow> Some st'
         | Some (Iterated st') \<Rightarrow> optimizationLoop su n st')
      else Some st)"

definition maxIterations :: nat where
  "maxIterations = 100"

record OptimizationResult =
  originalFSFVI :: real
  optimizedFSFVI :: real
  originalAllocations :: "(string \<times> real) list"
  optimizedAllocations :: "(string \<times> real) list"

definition optimizerSetupOf :: "FSFVIData \<Rightarrow> FSFVIResult \<Rightarrow> OptimizerSetup option" where
  \<comment> \<open>The bounds, from the dataset and the result of \<^verbatim>\<open>computeFSFVI(data)\<close>.\<close>
  "optimizerSetupOf d r =
     (let original = map (\<lambda>(key, subsector). (key, totalExpenditures subsector))
                       (subsectors (processedData r));
          ids = map fst (subsectors (processedData r))
      in do { lows \<leftarrow> forEachId ids
                (\<lambda>cid. map_option (\<lambda>a. max (a * (1 / 100)) (1 / 10)) (map_of original cid));
              highs \<leftarrow> forEachId ids
                (\<lambda>cid. map_option (\<lambda>a. min (a * 2) (totalBudget d * (4 / 10))) (map_of original cid));
              Some \<lparr>budget = totalBudget d, componentIds = ids,
                    minAllocations = lows, maxAllocations = highs\<rparr> })"

definition initialStateOf :: "FSFVIResult \<Rightarrow> OptimizerState" where
  "initialStateOf r =
     \<lparr>currentAllocations = map (\<lambda>(key, subsector). (key, totalExpenditures subsector))
                             (subsectors (processedData r)),
      workingSubsectors = subsectors (processedData r),
      currentFSFVI = fsfviValue r,
      prevFSFVI = None,
      learningRate = 1 / 10\<rparr>"

definition finalAllocationsOf :: "OptimizerSetup \<Rightarrow> OptimizerState \<Rightarrow> (string \<times> real) list option" where
  \<comment> \<open>\<^verbatim>\<open>currentAllocations[id] *= finalScaleFactor\<close>\<close>
  "finalAllocationsOf su st =
     (let finalTotal = sum_list (map snd (currentAllocations st)) in
      forEachId (componentIds su)
        (\<lambda>cid. do { finalScaleFactor \<leftarrow> divide_js (budget su) finalTotal;
                    a \<leftarrow> map_of (currentAllocations st) cid;
                    Some (a * finalScaleFactor) }))"

definition optimizerLoopResult ::
  "FSFVIData \<Rightarrow> (FSFVIResult \<times> OptimizerSetup \<times> OptimizerState) option" where
  \<comment> \<open>The result of \<^verbatim>\<open>computeFSFVI(data)\<close>, the setup, and the state in which the main
      loop ends.\<close>
  "optimizerLoopResult d =
     do { r \<leftarrow> computeFSFVI d None;
          su \<leftarrow> optimizerSetupOf d r;
          st \<leftarrow> optimizationLoop su maxIterations (initialStateOf r);
          Some (r, su, st) }"

definition initialGradientsOf :: "FSFVIData \<Rightarrow> (string \<times> real) list option" where
  \<comment> \<open>The gradients that the first iteration computes.\<close>
  "initialGradientsOf d =
     do { r \<leftarrow> computeFSFVI d None;
          su \<leftarrow> optimizerSetupOf d r;
          gradientsOf su (initialStateOf r) }"

definition optimizeResourceAllocation :: "FSFVIData \<Rightarrow> OptimizationResult option" where
  "optimizeResourceAllocation d =
     do { (r, su, st) \<leftarrow> optimizerLoopResult d;
          final \<leftarrow> finalAllocationsOf su st;
          working \<leftarrow> updateWorkingData (componentIds su) (workingSubsectors st) final;
          Some \<lparr>originalFSFVI = fsfviValue r,
                optimizedFSFVI = calculateFSFVI working,
                originalAllocations = map (\<lambda>(key, subsector). (key, totalExpenditures subsector))
                                        (subsectors (processedData r)),
                optimizedAllocations = final\<rparr> }"

section \<open>Reading a table, and example inputs\<close>


definition exampleIndicator :: "real \<Rightarrow> Indicator" where
  "exampleIndicator g =
     \<lparr>projectName = ''project'', matchScore = 1, expenditures = 0,
      indValue = None, benchmark = None, performanceGap = g\<rparr>"

definition exampleComponent :: "string \<Rightarrow> Indicator list \<Rightarrow> real \<Rightarrow> FSFVIComponent" where
  \<comment> \<open>A component as a loader hands it over: nothing derived is set yet.\<close>
  "exampleComponent key inds allocation =
     \<lparr>compId = key, compName = key, indicators = inds, totalExpenditures = allocation,
      averagePerformanceGap = 0, sensitivityParameter = None, weight = None,
      vulnerability = None\<rparr>"

definition overBudgetData :: FSFVIData where
  \<comment> \<open>One component with one indicator of gap \<open>1\<close>, funded with \<open>10\<close> out of a budget of \<open>5\<close>.\<close>
  "overBudgetData =
     \<lparr>subsectors = [(''A'', exampleComponent ''A'' [exampleIndicator 1] 10)],
      totalBudget = 5\<rparr>"

definition underBudgetData :: FSFVIData where
  \<comment> \<open>Two components without indicators, funded with \<open>10\<close> each out of a budget of \<open>30\<close>.\<close>
  "underBudgetData =
     \<lparr>subsectors = [(''A'', exampleComponent ''A'' [] 10), (''B'', exampleComponent ''B'' [] 10)],
      totalBudget = 30\<rparr>"

definition halfBudgetData :: FSFVIData where
  \<comment> \<open>Two components without indicators, funded with \<open>10\<close> each out of a budget of \<open>10\<close>.\<close>
  "halfBudgetData =
     \<lparr>subsectors = [(''A'', exampleComponent ''A'' [] 10), (''B'', exampleComponent ''B'' [] 10)],
      totalBudget = 10\<rparr>"

definition balancedData :: FSFVIData where
  \<comment> \<open>Allocations \<open>60\<close> and \<open>40\<close> that use up the budget of \<open>100\<close>; only \<open>A\<close> has a gap.\<close>
  "balancedData =
     \<lparr>subsectors = [(''A'', exampleComponent ''A'' [exampleIndicator 1] 60),
                    (''B'', exampleComponent ''B'' [] 40)],
      totalBudget = 100\<rparr>"

definition largeGapData :: FSFVIData where
  \<comment> \<open>One component whose only indicator has the gap \<open>6\<close>.\<close>
  "largeGapData =
     \<lparr>subsectors = [(''A'', exampleComponent ''A'' [exampleIndicator 6] 10)],
      totalBudget = 10\<rparr>"

definition exampleSubsectors :: subsectorTable where
  "exampleSubsectors =
     [(''Food security'', exampleComponent ''Food security'' [] 10),
      (''Resilience'', exampleComponent ''Resilience'' [] 20),
      (''A'', exampleComponent ''A'' [] 30)]"

definition prototypeKeySubsectors :: subsectorTable where
  "prototypeKeySubsectors =
     [(''constructor'', exampleComponent ''constructor'' [] 10),
      (''A'', exampleComponent ''A'' [] 30)]"

definition protoKeySubsectors :: subsectorTable where
  \<comment> \<open>A table as \<^verbatim>\<open>JSON.parse\<close> can build it, with \<^verbatim>\<open>__proto__\<close> as a key of its own.\<close>
  "protoKeySubsectors =
     [(''__proto__'', exampleComponent ''__proto__'' [] 10),
      (''A'', exampleComponent ''A'' [] 30)]"



definition exampleSetup :: OptimizerSetup where
  "exampleSetup = \<lparr>budget = 5, componentIds = [''A''],
     minAllocations = [(''A'', 1 / 10)], maxAllocations = [(''A'', 2)]\<rparr>"

definition exampleState :: OptimizerState where
  "exampleState =
     \<lparr>currentAllocations = [(''A'', 10)],
      workingSubsectors =
        [(''A'', (exampleComponent ''A'' [exampleIndicator 1] 10)
                  \<lparr>averagePerformanceGap := 1, sensitivityParameter := Some (2 / 5),
                   weight := Some 1, vulnerability := Some (1 / 5)\<rparr>)],
      currentFSFVI = 1 / 5, prevFSFVI = None, learningRate = 1 / 10\<rparr>"

definition sevenIndicators :: "Indicator list" where
  "sevenIndicators = map exampleIndicator [3, 1, 20, 2, 5, 4, 7]"

section \<open>Predicates of the correctness arguments\<close>

definition sensitivityOK :: "FSFVIComponent \<Rightarrow> bool" where
  \<comment> \<open>The component has a positive sensitivity parameter.\<close>
  "sensitivityOK c = (case sensitivityParameter c of None \<Rightarrow> False | Some s \<Rightarrow> 0 < s)"

definition sameFunding :: "subsectorTable \<Rightarrow> subsectorTable \<Rightarrow> bool" where
  \<comment> \<open>Two tables have the same keys in the same order, with the same expenditures.\<close>
  "sameFunding xs ys =
     list_all2 (\<lambda>x y. fst y = fst x \<and> totalExpenditures (snd y) = totalExpenditures (snd x)) xs ys"

definition sameComponent :: "string \<times> FSFVIComponent \<Rightarrow> string \<times> FSFVIComponent \<Rightarrow> bool" where
  "sameComponent x y \<longleftrightarrow> fst y = fst x
     \<and> totalExpenditures (snd y) = totalExpenditures (snd x)
     \<and> sensitivityParameter (snd y) = sensitivityParameter (snd x)"



section \<open>Properties of the leaf functions\<close>

lemma calculatePerformanceGap_standard_nonneg:
  assumes "\<not> (x < 0 \<and> bm < 0)"
  shows "0 \<le> calculatePerformanceGap (Some x) (Some bm) p"
  using assms by (auto simp: calculatePerformanceGap_def)

text \<open>
  Claim C1 (a gap is never negative for finite, non-null inputs) fails in the branch for
  two negative numbers: with higher values preferred, the value \<open>-1\<close> against the
  benchmark \<open>-2\<close> has the gap \<open>(1 - 2) / 1 = -1\<close>.
\<close>

theorem calculatePerformanceGap_both_negative_is_negative:
  "calculatePerformanceGap (Some (-1)) (Some (-2)) True = -1"
  by (simp add: calculatePerformanceGap_def)

text \<open>
  Claim C8: for a fixed gap \<open>gap \<ge> 0\<close> and sensitivity \<open>s \<ge> 0\<close>, the vulnerability is
  defined and does not increase when the allocation grows from \<open>f1\<close> to \<open>f2 \<ge> f1\<close>.
  Negative allocations are clamped to \<open>0\<close> by the function, so the statement holds for
  every \<open>f1 \<le> f2\<close>, in particular on the range \<open>f \<ge> 0\<close>.
\<close>

theorem calculateComponentVulnerability_antimono:
  assumes "0 \<le> gap" and "0 \<le> s" and "f1 \<le> f2"
  shows "\<exists>v1 v2. calculateComponentVulnerability gap f1 s = Some v1
           \<and> calculateComponentVulnerability gap f2 s = Some v2 \<and> v2 \<le> v1"
proof -
  define a1 where "a1 = max 0 f1"
  define a2 where "a2 = max 0 f2"
  have a: "0 \<le> a1" "a1 \<le> a2" using assms(3) by (simp_all add: a1_def a2_def)
  have d1: "0 < 1 + s * a1" using assms(2) a(1) by (simp add: add_pos_nonneg)
  have "s * a1 \<le> s * a2" using assms(2) a(2) by (simp add: mult_left_mono)
  then have le: "1 + s * a1 \<le> 1 + s * a2" by simp
  then have d2: "0 < 1 + s * a2" using d1 by linarith
  have "1 / (1 + s * a2) \<le> 1 / (1 + s * a1)"
    using d1 le by (simp add: frac_le)
  then have "gap * (1 / (1 + s * a2)) \<le> gap * (1 / (1 + s * a1))"
    using assms(1) by (rule mult_left_mono)
  then show ?thesis
    using d1 d2
    by (simp add: calculateComponentVulnerability_def divide_js_def a1_def a2_def)
qed

theorem calculateComponentVulnerability_antimono_witness:
  "\<exists>v1 v2. calculateComponentVulnerability (1/2) 10 (1/2) = Some v1
     \<and> calculateComponentVulnerability (1/2) 20 (1/2) = Some v2 \<and> v2 \<le> v1"
  using calculateComponentVulnerability_antimono[of "1/2" "1/2" 10 20] by simp

section \<open>Default cap of the pipeline\<close>

text \<open>
  Claim C6 (the pipeline clamps with the default cap \<open>8\<close> when the configuration names no
  cap) fails for \<^const>\<open>computeFSFVI\<close>: it fills in the cap \<open>5\<close> before it calls the
  aggregation. On a component whose only indicator has the gap \<open>6\<close> the pipeline stores
  the average gap \<open>5\<close>, while the aggregation called with no cap option returns \<open>6\<close>.
\<close>

theorem computeFSFVI_default_cap_is_5:
  "map_option (\<lambda>r. map (\<lambda>(key, subsector). averagePerformanceGap subsector)
                  (subsectors (processedData r)))
     (computeFSFVI largeGapData None) = Some [5]
   \<and> calculateComponentAverageGap [exampleIndicator 6] None (Some ''A'') = 6"
  by code_simp

section \<open>Trimming\<close>

lemma trimCountOf_div: "trimCountOf n = n div 10"
proof -
  have "real n * (1 / 10) = real n / real 10" by simp
  then have "\<lfloor>real n * (1 / 10)\<rfloor> = int (n div 10)"
    by (simp only: floor_divide_of_nat_eq)
  then show ?thesis by (simp add: trimCountOf_def)
qed

lemma length_trimIndicators:
  "length (trimIndicators xs) = length xs - 2 * trimCountOf (length xs)"
  by (simp add: trimIndicators_def Let_def trimCountOf_div)

lemma trimCountOf_less: "0 < n \<Longrightarrow> 2 * trimCountOf n < n"
  unfolding trimCountOf_div by arith

lemma trimIndicators_nonempty:
  assumes "xs \<noteq> []"
  shows "trimIndicators xs \<noteq> []"
proof -
  have "0 < length xs" using assms by simp
  then have "0 < length xs - 2 * trimCountOf (length xs)"
    using trimCountOf_less[of "length xs"] by arith
  then show ?thesis by (metis length_trimIndicators length_greater_0_conv)
qed

lemma trimOutliersOf_off [simp]:
  "trimOutliersOf (Some (g\<lparr>trimOutliers := Some False\<rparr>)) = False"
  by (simp add: trimOutliersOf_def gapOptionsOf_def)

lemma trace_without_trimming:
  assumes "\<not> trimOutliersOf opts"
  shows "snd (calculateComponentAverageGap_trace inds opts sid)
           \<in> {[NoValidIndicators], [Reduction]}"
  using assms by (subst calculateComponentAverageGap_trace.simps) (simp add: Let_def)

lemma trace_cases:
  "snd (calculateComponentAverageGap_trace inds opts sid)
     \<in> {[NoValidIndicators], [Reduction],
        [TrimRecursion, NoValidIndicators], [TrimRecursion, Reduction]}"
proof -
  let ?valid = "filter (\<lambda>i. performanceGap i \<ge> 0) inds"
  let ?capped = "capIndicators (percentileCap opts ?valid (configuredCap opts sid)) ?valid"
  let ?opts' = "Some ((gapOptionsOf opts)\<lparr>trimOutliers := Some False\<rparr>)"
  show ?thesis
  proof (cases "?valid \<noteq> [] \<and> trimOutliersOf opts \<and> length ?capped > 5")
    case True
    then have ne: "trimIndicators ?capped \<noteq> []"
      by (intro trimIndicators_nonempty) auto
    have "snd (calculateComponentAverageGap_trace (trimIndicators ?capped) ?opts' sid)
            \<in> {[NoValidIndicators], [Reduction]}"
      by (rule trace_without_trimming) simp
    then show ?thesis using True ne
      by (subst calculateComponentAverageGap_trace.simps) (auto simp add: Let_def)
  next
    case False
    then show ?thesis
      by (subst calculateComponentAverageGap_trace.simps) (auto simp add: Let_def)
  qed
qed

lemma trace_when_trimming:
  assumes "trimOutliersOf opts" and "5 < length (filter (\<lambda>i. performanceGap i \<ge> 0) inds)"
  shows "hd (snd (calculateComponentAverageGap_trace inds opts sid)) = TrimRecursion"
proof -
  let ?valid = "filter (\<lambda>i. performanceGap i \<ge> 0) inds"
  let ?capped = "capIndicators (percentileCap opts ?valid (configuredCap opts sid)) ?valid"
  have len: "length ?capped = length ?valid" by (simp add: capIndicators_def)
  then have "?capped \<noteq> []" using assms(2) by (cases ?capped) simp_all
  then have ne: "trimIndicators ?capped \<noteq> []" by (rule trimIndicators_nonempty)
  have v: "?valid \<noteq> []" using assms(2) by (cases ?valid) simp_all
  show ?thesis using assms v ne len
    by (subst calculateComponentAverageGap_trace.simps) (simp add: Let_def)
qed

text \<open>
  Claim C10: trimming \<open>n\<close> capped indicators removes \<open>\<lfloor>n * 0.1\<rfloor>\<close>, that is \<open>n div 10\<close>,
  from each end, and for \<open>n > 5\<close> this leaves \<open>n - 2 * (n div 10) > 0\<close> indicators. So no
  call ever takes the fallback branch, and the calls nest at most one deep: the trace of
  branches is a single branch, or the recursion on the trimmed indicators followed by a
  single branch; with trimming requested and more than five valid indicators it is the
  latter.
\<close>

theorem trimming_leaves_indicators_and_recurses_once:
  "(5 < length cappedIndicators \<longrightarrow>
      trimCountOf (length cappedIndicators) = length cappedIndicators div 10
    \<and> 2 * trimCountOf (length cappedIndicators) < length cappedIndicators
    \<and> length (trimIndicators cappedIndicators)
        = length cappedIndicators - 2 * trimCountOf (length cappedIndicators)
    \<and> trimIndicators cappedIndicators \<noteq> [])
   \<and> TrimFallback \<notin> set (snd (calculateComponentAverageGap_trace inds opts sid))
   \<and> snd (calculateComponentAverageGap_trace inds opts sid)
        \<in> {[NoValidIndicators], [Reduction],
           [TrimRecursion, NoValidIndicators], [TrimRecursion, Reduction]}
   \<and> (trimOutliersOf opts \<and> 5 < length (filter (\<lambda>i. performanceGap i \<ge> 0) inds) \<longrightarrow>
        snd (calculateComponentAverageGap_trace inds opts sid)
          \<in> {[TrimRecursion, NoValidIndicators], [TrimRecursion, Reduction]})"
proof -
  have a: "5 < length cappedIndicators \<longrightarrow>
      trimCountOf (length cappedIndicators) = length cappedIndicators div 10
    \<and> 2 * trimCountOf (length cappedIndicators) < length cappedIndicators
    \<and> length (trimIndicators cappedIndicators)
        = length cappedIndicators - 2 * trimCountOf (length cappedIndicators)
    \<and> trimIndicators cappedIndicators \<noteq> []"
  proof
    assume n: "5 < length cappedIndicators"
    then have "cappedIndicators \<noteq> []" by (cases cappedIndicators) simp_all
    then have "trimIndicators cappedIndicators \<noteq> []" by (rule trimIndicators_nonempty)
    moreover have "2 * trimCountOf (length cappedIndicators) < length cappedIndicators"
      using trimCountOf_less[of "length cappedIndicators"] n by linarith
    ultimately show "trimCountOf (length cappedIndicators) = length cappedIndicators div 10
      \<and> 2 * trimCountOf (length cappedIndicators) < length cappedIndicators
      \<and> length (trimIndicators cappedIndicators)
          = length cappedIndicators - 2 * trimCountOf (length cappedIndicators)
      \<and> trimIndicators cappedIndicators \<noteq> []"
      using trimCountOf_div length_trimIndicators by simp
  qed
  have c: "snd (calculateComponentAverageGap_trace inds opts sid)
        \<in> {[NoValidIndicators], [Reduction],
           [TrimRecursion, NoValidIndicators], [TrimRecursion, Reduction]}"
    by (rule trace_cases)
  then have b: "TrimFallback \<notin> set (snd (calculateComponentAverageGap_trace inds opts sid))"
    by auto
  have d: "trimOutliersOf opts \<and> 5 < length (filter (\<lambda>i. performanceGap i \<ge> 0) inds) \<longrightarrow>
        snd (calculateComponentAverageGap_trace inds opts sid)
          \<in> {[TrimRecursion, NoValidIndicators], [TrimRecursion, Reduction]}"
  proof
    assume "trimOutliersOf opts \<and> 5 < length (filter (\<lambda>i. performanceGap i \<ge> 0) inds)"
    then have "hd (snd (calculateComponentAverageGap_trace inds opts sid)) = TrimRecursion"
      by (intro trace_when_trimming) simp_all
    with c show "snd (calculateComponentAverageGap_trace inds opts sid)
          \<in> {[TrimRecursion, NoValidIndicators], [TrimRecursion, Reduction]}"
      by auto
  qed
  from a b c d show ?thesis by blast
qed

theorem trimming_leaves_indicators_and_recurses_once_witness:
  "5 < length sevenIndicators
   \<and> trimOutliersOf None
   \<and> 5 < length (filter (\<lambda>i. performanceGap i \<ge> 0) sevenIndicators)
   \<and> trimIndicators sevenIndicators \<noteq> []
   \<and> snd (calculateComponentAverageGap_trace sevenIndicators None None)
       \<in> {[TrimRecursion, NoValidIndicators], [TrimRecursion, Reduction]}"
proof -
  have h1: "5 < length sevenIndicators" by (simp add: sevenIndicators_def)
  have h2: "trimOutliersOf None"
    by (simp add: trimOutliersOf_def gapOptionsOf_def noGapOptions_def)
  have h3: "5 < length (filter (\<lambda>i. performanceGap i \<ge> 0) sevenIndicators)"
    by (simp add: sevenIndicators_def exampleIndicator_def)
  from trimming_leaves_indicators_and_recurses_once[of sevenIndicators sevenIndicators None None]
    h1 h2 h3
  show ?thesis by blast
qed

section \<open>Tables\<close>

lemma those_map_Some:
  assumes "\<And>x. x \<in> set xs \<Longrightarrow> f x = Some (g x)"
  shows "those (map f xs) = Some (map g xs)"
  using assms by (induction xs) simp_all

lemma those_eq_SomeD: "those xs = Some ys \<Longrightarrow> xs = map Some ys"
  by (induction xs arbitrary: ys) (auto split: option.splits)



lemma those_list_all2:
  "those (map f xs) = Some ys \<Longrightarrow> list_all2 (\<lambda>x y. f x = Some y) xs ys"
proof (induction xs arbitrary: ys)
  case Nil
  then show ?case by simp
next
  case (Cons x xs)
  then show ?case by (auto split: option.splits)
qed

lemma forEachId_Some_iff:
  "forEachId ids f = Some r \<longleftrightarrow>
     (\<forall>k \<in> set ids. f k \<noteq> None) \<and> r = map (\<lambda>k. (k, the (f k))) ids"
proof
  assume a: "forEachId ids f = Some r"
  then have m: "map (\<lambda>k. map_option (Pair k) (f k)) ids = map Some r"
    unfolding forEachId_def by (rule those_eq_SomeD)
  then have len: "length r = length ids" by (metis length_map)
  have e: "map_option (Pair (ids ! i)) (f (ids ! i)) = Some (r ! i)" if "i < length ids" for i
  proof -
    have "map (\<lambda>k. map_option (Pair k) (f k)) ids ! i = map Some r ! i" using m by simp
    then show ?thesis using that len by simp
  qed
  have 1: "\<forall>k \<in> set ids. f k \<noteq> None"
  proof
    fix k assume "k \<in> set ids"
    then obtain i where "i < length ids" "ids ! i = k" by (auto simp: in_set_conv_nth)
    with e[of i] show "f k \<noteq> None" by auto
  qed
  have 2: "r = map (\<lambda>k. (k, the (f k))) ids"
  proof (rule nth_equalityI)
    show "length r = length (map (\<lambda>k. (k, the (f k))) ids)" using len by simp
  next
    fix i assume "i < length r"
    then have i: "i < length ids" using len by simp
    from e[OF i] show "r ! i = map (\<lambda>k. (k, the (f k))) ids ! i" using i by auto
  qed
  from 1 2 show "(\<forall>k \<in> set ids. f k \<noteq> None) \<and> r = map (\<lambda>k. (k, the (f k))) ids" by simp
next
  assume b: "(\<forall>k \<in> set ids. f k \<noteq> None) \<and> r = map (\<lambda>k. (k, the (f k))) ids"
  have "those (map (\<lambda>k. map_option (Pair k) (f k)) ids) = Some (map (\<lambda>k. (k, the (f k))) ids)"
    by (rule those_map_Some) (use b in auto)
  then show "forEachId ids f = Some r" using b by (simp add: forEachId_def)
qed

lemma forEachId_keys: "forEachId ids f = Some r \<Longrightarrow> map fst r = ids"
  by (simp add: forEachId_Some_iff comp_def)

lemma forEachId_entry:
  assumes "forEachId ids f = Some r" and "(k, v) \<in> set r"
  shows "k \<in> set ids \<and> f k = Some v"
  using assms by (auto simp: forEachId_Some_iff)

lemma forEachId_lookup:
  assumes "forEachId ids f = Some r" and "k \<in> set ids"
  shows "map_of r k = f k"
proof -
  from assms have "f k \<noteq> None" and r: "r = map (\<lambda>k. (k, the (f k))) ids"
    by (auto simp: forEachId_Some_iff)
  then obtain v where v: "f k = Some v" by auto
  have "map_of r k = Some (the (f k))"
    unfolding r using assms(2) by (induction ids) auto
  with v show ?thesis by simp
qed

lemma forEachId_SomeI:
  assumes "\<And>k. k \<in> set ids \<Longrightarrow> f k = Some (g k)"
  shows "forEachId ids f = Some (map (\<lambda>k. (k, g k)) ids)"
  using assms by (simp add: forEachId_Some_iff)

lemma map_of_projection:
  assumes "distinct (map fst xs)" and "(k, c) \<in> set xs"
  shows "map_of (map (\<lambda>(key, x). (key, h x)) xs) k = Some (h c)"
proof -
  have "distinct (map fst (map (\<lambda>(key, x). (key, h x)) xs))"
    using assms(1) by (simp add: comp_def case_prod_beta)
  moreover have "(k, h c) \<in> set (map (\<lambda>(key, x). (key, h x)) xs)"
    using assms(2) by force
  ultimately show ?thesis by (rule map_of_is_SomeI)
qed

lemma map_of_keys_Some:
  assumes "k \<in> set (map fst xs)"
  shows "\<exists>v. map_of xs k = Some v \<and> (k, v) \<in> set xs"
proof -
  from assms have "map_of xs k \<noteq> None" by (simp add: map_of_eq_None_iff)
  then obtain v where "map_of xs k = Some v" by auto
  then show ?thesis by (auto dest: map_of_SomeD)
qed

lemma map_lookup_own_keys:
  assumes "distinct (map fst xs)"
  shows "map (\<lambda>k. (k, h (the (map_of xs k)))) (map fst xs) = map (\<lambda>(k, v). (k, h v)) xs"
proof -
  have "(fst x, h (the (map_of xs (fst x)))) = (fst x, h (snd x))" if "x \<in> set xs" for x
  proof -
    have "map_of xs (fst x) = Some (snd x)" using assms that by simp
    then show ?thesis by simp
  qed
  then show ?thesis by (simp add: case_prod_beta)
qed




section \<open>Weights sum to one\<close>

lemma list_all2_fst_keys:
  "list_all2 (\<lambda>x y. fst y = fst x) xs ys \<Longrightarrow> map fst ys = map fst xs"
  by (induction rule: list_all2_induct) auto










text \<open>
  With a component keyed \<^verbatim>\<open>constructor\<close>, or a policy priority keyed \<^verbatim>\<open>toString\<close>,
  a working weight is not a number, and no weight is assigned; a policy priority keyed
  \<^verbatim>\<open>__proto__\<close> changes nothing. With a component keyed \<^verbatim>\<open>__proto__\<close> the working
  weights are those of the other components, and that component gets no weight.
\<close>

lemma inherited_keys_give_no_weights:
  "Option.is_none (assignComponentWeights prototypeKeySubsectors None None)
   \<and> Option.is_none (workingWeightsOf exampleSubsectors (Some [(''toString'', 2)]) None)
   \<and> workingWeightsOf exampleSubsectors (Some [(''__proto__'', 2)]) None
       = workingWeightsOf exampleSubsectors None None
   \<and> workingWeightsOf protoKeySubsectors None None = Some [(''A'', 1 / 40)]
   \<and> Option.is_none (assignComponentWeights protoKeySubsectors None None)"
  by code_simp

section \<open>The pipeline keeps keys and expenditures\<close>

lemma sameFunding_trans:
  assumes "sameFunding xs ys" and "sameFunding ys zs"
  shows "sameFunding xs zs"
  unfolding sameFunding_def
  by (rule list_all2_trans[OF _ assms(1)[unfolded sameFunding_def] assms(2)[unfolded sameFunding_def]])
     auto

lemma sameFunding_keys: "sameFunding xs ys \<Longrightarrow> map fst ys = map fst xs"
  unfolding sameFunding_def by (induction rule: list_all2_induct) auto

lemma sameFunding_allocations:
  "sameFunding xs ys \<Longrightarrow>
     map (\<lambda>(key, subsector). (key, totalExpenditures subsector)) ys
       = map (\<lambda>(key, subsector). (key, totalExpenditures subsector)) xs"
  unfolding sameFunding_def by (induction rule: list_all2_induct) (auto simp: case_prod_beta)

lemma sameFunding_preprocessData: "sameFunding (subsectors d) (subsectors (preprocessData d g p))"
  by (simp add: sameFunding_def preprocessData_def list_all2_map2 case_prod_beta Let_def
        list_all2_same)

lemma estimateSensitivity_lower:
  assumes "estimateSensitivity key subsector = Some e"
  shows "1 / 10 \<le> e"
proof -
  from assms obtain e0 where "e = adjustSensitivity e0 subsector"
    by (auto simp: estimateSensitivity_def)
  then show ?thesis
    unfolding adjustSensitivity_def Let_def by (simp only: max.cobounded1)
qed

lemma estimateSensitivityParameters_related:
  assumes "estimateSensitivityParameters subs = Some sens"
  shows "sameFunding subs sens"
    and "\<And>k c. (k, c) \<in> set sens \<Longrightarrow> sensitivityOK c"
proof -
  from assms have "list_all2 (\<lambda>x y. (case x of (key, subsector) \<Rightarrow>
      map_option (\<lambda>e. (key, subsector\<lparr>sensitivityParameter := Some e\<rparr>))
        (estimateSensitivity key subsector)) = Some y) subs sens"
    unfolding estimateSensitivityParameters_def by (rule those_list_all2)
  then have rel: "list_all2 (\<lambda>x y. \<exists>e. estimateSensitivity (fst x) (snd x) = Some e
      \<and> fst y = fst x \<and> totalExpenditures (snd y) = totalExpenditures (snd x)
      \<and> sensitivityParameter (snd y) = Some e) subs sens"
    by (rule list_all2_mono) auto
  show "sameFunding subs sens"
    unfolding sameFunding_def using rel by (rule list_all2_mono) auto
  show "sensitivityOK c" if "(k, c) \<in> set sens" for k c
  proof -
    from that obtain i where i: "i < length sens" "sens ! i = (k, c)"
      by (auto simp: in_set_conv_nth)
    from rel i(1) have "\<exists>e. estimateSensitivity (fst (subs ! i)) (snd (subs ! i)) = Some e
      \<and> sensitivityParameter (snd (sens ! i)) = Some e"
      by (auto simp: list_all2_conv_all_nth)
    then obtain e where e: "estimateSensitivity (fst (subs ! i)) (snd (subs ! i)) = Some e"
      and c: "sensitivityParameter c = Some e"
      using i(2) by auto
    from estimateSensitivity_lower[OF e] have "0 < e" by linarith
    with c show ?thesis by (simp add: sensitivityOK_def)
  qed
qed

lemma assignComponentWeights_related:
  assumes "assignComponentWeights subs pri fac = Some res"
  shows "list_all2 sameComponent subs res"
proof -
  from assms obtain ww where
    "those (map (\<lambda>(key, subsector).
                   do { w \<leftarrow> map_of ww key;
                        q \<leftarrow> divide_js w (sum_list (map snd ww));
                        Some (key, subsector\<lparr>weight := Some q\<rparr>) })
                subs) = Some res"
    unfolding assignComponentWeights_def Let_def by (auto split: Option.bind_splits)
  then have "list_all2 (\<lambda>x y. (case x of (key, subsector) \<Rightarrow>
       do { w \<leftarrow> map_of ww key;
            q \<leftarrow> divide_js w (sum_list (map snd ww));
            Some (key, subsector\<lparr>weight := Some q\<rparr>) }) = Some y) subs res"
    by (rule those_list_all2)
  then show ?thesis
    by (rule list_all2_mono) (auto simp: sameComponent_def split: Option.bind_splits)
qed

lemma withVulnerability_SomeD:
  "withVulnerability a c = Some c' \<Longrightarrow> \<exists>v. c' = c\<lparr>vulnerability := Some v\<rparr>"
  by (auto simp: withVulnerability_def split: Option.bind_splits)

lemma calculateVulnerabilities_related:
  assumes "calculateVulnerabilities d config = Some d'"
  shows "totalBudget d' = totalBudget d"
    and "sameFunding (subsectors d) (subsectors d')"
    and "\<And>k c. (k, c) \<in> set (subsectors d') \<Longrightarrow> sensitivityOK c"
proof -
  let ?pre = "preprocessData d (Option.bind config gapCalculation) (Option.bind config metricPreference)"
  from assms obtain sens weighted subs where
    e: "estimateSensitivityParameters (subsectors ?pre) = Some sens"
    and w: "assignComponentWeights sens (Option.bind config policyPriorities)
          (Option.bind config contextualFactors) = Some weighted"
    and v: "those (map (\<lambda>(key, subsector). map_option (Pair key)
                     (withVulnerability (totalExpenditures subsector) subsector)) weighted) = Some subs"
    and d': "d' = d\<lparr>subsectors := subs\<rparr>"
    by (auto simp: calculateVulnerabilities_def Let_def split: Option.bind_splits)
  show "totalBudget d' = totalBudget d" by (simp add: d')
  have r1: "list_all2 sameComponent sens weighted"
    using w by (rule assignComponentWeights_related)
  have "list_all2 (\<lambda>x y. (case x of (key, subsector) \<Rightarrow> map_option (Pair key)
                     (withVulnerability (totalExpenditures subsector) subsector)) = Some y) weighted subs"
    using v by (rule those_list_all2)
  then have r2: "list_all2 sameComponent weighted subs"
    by (rule list_all2_mono) (auto simp: sameComponent_def dest: withVulnerability_SomeD)
  have r12: "list_all2 sameComponent sens subs"
    by (rule list_all2_trans[OF _ r1 r2]) (simp add: sameComponent_def)
  have "sameFunding sens subs"
    unfolding sameFunding_def using r12 by (rule list_all2_mono) (simp add: sameComponent_def)
  moreover have "sameFunding (subsectors ?pre) sens"
    using e by (rule estimateSensitivityParameters_related(1))
  moreover have "sameFunding (subsectors d) (subsectors ?pre)"
    by (rule sameFunding_preprocessData)
  ultimately have "sameFunding (subsectors d) subs"
    using sameFunding_trans by blast
  then show "sameFunding (subsectors d) (subsectors d')" by (simp add: d')
  show "sensitivityOK c" if "(k, c) \<in> set (subsectors d')" for k c
  proof -
    from that have "(k, c) \<in> set subs" by (simp add: d')
    then obtain i where i: "i < length subs" "subs ! i = (k, c)" by (auto simp: in_set_conv_nth)
    have len: "length sens = length subs" using r12 by (rule list_all2_lengthD)
    have "sameComponent (sens ! i) (subs ! i)" using r12 i(1) by (simp add: list_all2_conv_all_nth)
    then have eq: "sensitivityParameter c = sensitivityParameter (snd (sens ! i))"
      using i(2) by (simp add: sameComponent_def)
    have "sens ! i \<in> set sens" using i(1) len by simp
    then have "(fst (sens ! i), snd (sens ! i)) \<in> set sens" by simp
    then have "sensitivityOK (snd (sens ! i))"
      by (rule estimateSensitivityParameters_related(2)[OF e])
    with eq show ?thesis by (simp add: sensitivityOK_def)
  qed
qed

lemma computeFSFVI_related:
  assumes "computeFSFVI d config = Some r"
  shows "map fst (subsectors (processedData r)) = map fst (subsectors d)"
    and "map (\<lambda>(key, subsector). (key, totalExpenditures subsector)) (subsectors (processedData r))
           = map (\<lambda>(key, subsector). (key, totalExpenditures subsector)) (subsectors d)"
    and "\<And>k c. (k, c) \<in> set (subsectors (processedData r)) \<Longrightarrow> sensitivityOK c"
proof -
  let ?e = "effectiveConfigOf config"
  let ?pre = "preprocessData d (gapCalculation ?e) (metricPreference ?e)"
  from assms obtain d' where c: "calculateVulnerabilities ?pre (Some ?e) = Some d'"
    and r: "processedData r = d'"
    by (auto simp: computeFSFVI_def Let_def split: Option.bind_splits)
  have "sameFunding (subsectors d) (subsectors ?pre)" by (rule sameFunding_preprocessData)
  then have s: "sameFunding (subsectors d) (subsectors d')"
    using calculateVulnerabilities_related(2)[OF c] sameFunding_trans by blast
  show "map fst (subsectors (processedData r)) = map fst (subsectors d)"
    using sameFunding_keys[OF s] by (simp add: r)
  show "map (\<lambda>(key, subsector). (key, totalExpenditures subsector)) (subsectors (processedData r))
           = map (\<lambda>(key, subsector). (key, totalExpenditures subsector)) (subsectors d)"
    using sameFunding_allocations[OF s] by (simp add: r)
  show "sensitivityOK c'" if "(k, c') \<in> set (subsectors (processedData r))" for k c'
    using calculateVulnerabilities_related(3)[OF c] that by (simp add: r)
qed

section \<open>One iteration of the optimizer\<close>

lemma gradientsOf_prev [simp]: "gradientsOf su (st\<lparr>prevFSFVI := p\<rparr>) = gradientsOf su st"
  by (simp add: gradientsOf_def)

lemma proposeAllocations_prev [simp]:
  "proposeAllocations su (st\<lparr>prevFSFVI := p\<rparr>) g = proposeAllocations su st g"
  by (simp add: proposeAllocations_def tentativeAllocationsOf_def)

lemma optimizerIteration_IteratedD:
  assumes "optimizerIteration su st = Some (Iterated st')"
  shows "\<exists>gradients allocations working.
           gradientsOf su st = Some gradients
         \<and> totalGradientMagnitudeOf gradients \<noteq> 0
         \<and> proposeAllocations su st gradients = Some allocations
         \<and> updateWorkingData (componentIds su) (workingSubsectors st) allocations = Some working
         \<and> st' = adaptiveStep (st\<lparr>prevFSFVI := Some (currentFSFVI st),
                                   currentAllocations := allocations,
                                   workingSubsectors := working,
                                   currentFSFVI := calculateFSFVI working\<rparr>)"
  using assms
  by (auto simp: optimizerIteration_def Let_def split: option.splits if_splits Option.bind_splits)

lemma optimizerIteration_NoImprovementD:
  assumes "optimizerIteration su st = Some (NoImprovementPossible st')"
  shows "\<exists>gradients. gradientsOf su st = Some gradients
         \<and> totalGradientMagnitudeOf gradients = 0
         \<and> st' = st\<lparr>prevFSFVI := Some (currentFSFVI st)\<rparr>"
  using assms
  by (auto simp: optimizerIteration_def Let_def split: option.splits if_splits Option.bind_splits)

text \<open>
  Claim C9: an iteration that runs to its end keeps the allocations it computed and the
  working data updated from them, whether the index improved or not. When the recomputed
  index is below the previous one, the learning rate is multiplied by \<open>1.1\<close> and the
  recomputed index is recorded; otherwise the learning rate is multiplied by \<open>0.5\<close> and
  the recorded index is again the previous one.
\<close>

theorem adaptive_step_of_iteration:
  assumes "optimizerIteration su st = Some (Iterated st')"
  shows "\<exists>gradients allocations working.
           gradientsOf su st = Some gradients
         \<and> proposeAllocations su st gradients = Some allocations
         \<and> updateWorkingData (componentIds su) (workingSubsectors st) allocations = Some working
         \<and> currentAllocations st' = allocations
         \<and> workingSubsectors st' = working
         \<and> prevFSFVI st' = Some (currentFSFVI st)
         \<and> (if calculateFSFVI working < currentFSFVI st
            then learningRate st' = learningRate st * (11 / 10)
               \<and> currentFSFVI st' = calculateFSFVI working
            else learningRate st' = learningRate st * (1 / 2)
               \<and> currentFSFVI st' = currentFSFVI st)"
proof -
  from optimizerIteration_IteratedD[OF assms] obtain gradients allocations working where
    g: "gradientsOf su st = Some gradients"
    and a: "proposeAllocations su st gradients = Some allocations"
    and w: "updateWorkingData (componentIds su) (workingSubsectors st) allocations = Some working"
    and s: "st' = adaptiveStep (st\<lparr>prevFSFVI := Some (currentFSFVI st),
                                   currentAllocations := allocations,
                                   workingSubsectors := working,
                                   currentFSFVI := calculateFSFVI working\<rparr>)"
    by blast
  have "currentAllocations st' = allocations" "workingSubsectors st' = working"
    "prevFSFVI st' = Some (currentFSFVI st)"
    "if calculateFSFVI working < currentFSFVI st
     then learningRate st' = learningRate st * (11 / 10) \<and> currentFSFVI st' = calculateFSFVI working
     else learningRate st' = learningRate st * (1 / 2) \<and> currentFSFVI st' = currentFSFVI st"
    by (simp_all add: s adaptiveStep_def)
  with g a w show ?thesis by blast
qed

theorem adaptive_step_of_iteration_witness:
  "\<exists>st' gradients allocations working.
       optimizerIteration exampleSetup exampleState = Some (Iterated st')
     \<and> gradientsOf exampleSetup exampleState = Some gradients
     \<and> proposeAllocations exampleSetup exampleState gradients = Some allocations
     \<and> updateWorkingData (componentIds exampleSetup) (workingSubsectors exampleState) allocations
         = Some working
     \<and> currentAllocations st' = allocations
     \<and> workingSubsectors st' = working
     \<and> prevFSFVI st' = Some (currentFSFVI exampleState)
     \<and> (if calculateFSFVI working < currentFSFVI exampleState
        then learningRate st' = learningRate exampleState * (11 / 10)
           \<and> currentFSFVI st' = calculateFSFVI working
        else learningRate st' = learningRate exampleState * (1 / 2)
           \<and> currentFSFVI st' = currentFSFVI exampleState)"
proof -
  have "case optimizerIteration exampleSetup exampleState of
          Some (Iterated st') \<Rightarrow> True | _ \<Rightarrow> False"
    by code_simp
  then obtain st' where h: "optimizerIteration exampleSetup exampleState = Some (Iterated st')"
    by (auto split: option.splits iterationOutcome.splits)
  from adaptive_step_of_iteration[OF h] h show ?thesis by blast
qed

lemma example_iteration_does_not_improve:
  "map_option (\<lambda>outcome. case outcome of
       Iterated st' \<Rightarrow> (currentAllocations st', currentFSFVI st', learningRate st')
     | NoImprovementPossible st' \<Rightarrow> ([], 0, 0))
     (optimizerIteration exampleSetup exampleState) = Some ([(''A'', 5)], 1 / 5, 1 / 20)"
  by code_simp

section \<open>The recorded index\<close>

lemma optimizerIteration_index_le:
  assumes "optimizerIteration su st = Some (Iterated st')"
  shows "currentFSFVI st' \<le> currentFSFVI st"
  using optimizerIteration_IteratedD[OF assms] by (auto simp: adaptiveStep_def)

lemma optimizationLoop_index_le:
  "optimizationLoop su n st = Some st' \<Longrightarrow> currentFSFVI st' \<le> currentFSFVI st"
proof (induction n arbitrary: st)
  case 0
  then show ?case by simp
next
  case (Suc n)
  show ?case
  proof (cases "stillImproving st")
    case False
    with Suc.prems show ?thesis by simp
  next
    case True
    show ?thesis
    proof (cases "optimizerIteration su st")
      case None
      with True Suc.prems show ?thesis by simp
    next
      case (Some outcome)
      show ?thesis
      proof (cases outcome)
        case (NoImprovementPossible s1)
        with Some True Suc.prems have "st' = s1" by simp
        moreover have "currentFSFVI s1 = currentFSFVI st"
          using optimizerIteration_NoImprovementD Some NoImprovementPossible by fastforce
        ultimately show ?thesis by simp
      next
        case (Iterated s1)
        with Some True Suc.prems have "optimizationLoop su n s1 = Some st'" by simp
        then have "currentFSFVI st' \<le> currentFSFVI s1" by (rule Suc.IH)
        moreover have "currentFSFVI s1 \<le> currentFSFVI st"
          using Some Iterated by (intro optimizerIteration_index_le) simp
        ultimately show ?thesis by linarith
      qed
    qed
  qed
qed

text \<open>
  Claim C3 (the returned \<^const>\<open>optimizedFSFVI\<close> is at most \<^const>\<open>originalFSFVI\<close>) fails:
  the returned index is recomputed from the allocations after the final rescaling to the
  budget. In \<^const>\<open>overBudgetData\<close> the one component holds \<open>10\<close> and the budget is \<open>5\<close>, so
  it ends with \<open>5\<close> and the index rises from \<open>1/5\<close> to \<open>1/3\<close>.
\<close>

theorem optimizer_can_increase_index:
  "map_option (\<lambda>r. (originalFSFVI r, optimizedFSFVI r,
                    optimizedFSFVI r \<le> originalFSFVI r + 1 / 10 ^ 9))
     (optimizeResourceAllocation overBudgetData) = Some (1 / 5, 1 / 3, False)"
  by code_simp

text \<open>
  Claim C3, amended: what never increases is the index recorded for the stopping test.
  When the optimizer returns, the main loop has ended in a state whose recorded index
  \<^const>\<open>currentFSFVI\<close> is at most the returned \<^const>\<open>originalFSFVI\<close>.
\<close>

theorem recorded_index_never_increases:
  assumes "optimizeResourceAllocation d = Some res"
  shows "\<exists>r su st. optimizerLoopResult d = Some (r, su, st)
           \<and> originalFSFVI res = fsfviValue r
           \<and> currentFSFVI st \<le> originalFSFVI res"
proof -
  from assms obtain r su st where l: "optimizerLoopResult d = Some (r, su, st)"
    and o: "originalFSFVI res = fsfviValue r"
    by (auto simp: optimizeResourceAllocation_def split: Option.bind_splits)
  from l have "optimizationLoop su maxIterations (initialStateOf r) = Some st"
    by (auto simp: optimizerLoopResult_def split: Option.bind_splits)
  then have "currentFSFVI st \<le> currentFSFVI (initialStateOf r)" by (rule optimizationLoop_index_le)
  then have "currentFSFVI st \<le> fsfviValue r" by (simp add: initialStateOf_def)
  with l o show ?thesis by auto
qed

theorem recorded_index_never_increases_witness:
  "\<exists>res r su st. optimizeResourceAllocation overBudgetData = Some res
     \<and> optimizerLoopResult overBudgetData = Some (r, su, st)
     \<and> originalFSFVI res = fsfviValue r
     \<and> currentFSFVI st \<le> originalFSFVI res"
proof -
  have "\<not> Option.is_none (optimizeResourceAllocation overBudgetData)" by code_simp
  then obtain res where h: "optimizeResourceAllocation overBudgetData = Some res"
    by (auto simp: Option.is_none_def)
  from recorded_index_never_increases[OF h] h show ?thesis by blast
qed

section \<open>Bounds of the returned allocations\<close>

lemma optimizerSetupOf_SomeD:
  assumes "optimizerSetupOf d r = Some su"
  shows "budget su = totalBudget d"
    and "componentIds su = map fst (subsectors (processedData r))"
    and "map fst (minAllocations su) = componentIds su"
    and "map fst (maxAllocations su) = componentIds su"
    and "\<And>k lo. (k, lo) \<in> set (minAllocations su) \<Longrightarrow> 1 / 10 \<le> lo"
    and "\<And>k hi. (k, hi) \<in> set (maxAllocations su) \<Longrightarrow> hi \<le> totalBudget d * (4 / 10)"
proof -
  let ?original = "map (\<lambda>(key, subsector). (key, totalExpenditures subsector))
                       (subsectors (processedData r))"
  let ?ids = "map fst (subsectors (processedData r))"
  from assms obtain lows highs where
    lo: "forEachId ?ids (\<lambda>cid. map_option (\<lambda>a. max (a * (1 / 100)) (1 / 10)) (map_of ?original cid))
           = Some lows"
    and hi: "forEachId ?ids
           (\<lambda>cid. map_option (\<lambda>a. min (a * 2) (totalBudget d * (4 / 10))) (map_of ?original cid))
           = Some highs"
    and su: "su = \<lparr>budget = totalBudget d, componentIds = ?ids,
                   minAllocations = lows, maxAllocations = highs\<rparr>"
    by (auto simp: optimizerSetupOf_def Let_def split: Option.bind_splits)
  show "budget su = totalBudget d" "componentIds su = map fst (subsectors (processedData r))"
    by (simp_all add: su)
  show "map fst (minAllocations su) = componentIds su"
    using forEachId_keys[OF lo] by (simp add: su)
  show "map fst (maxAllocations su) = componentIds su"
    using forEachId_keys[OF hi] by (simp add: su)
  show "1 / 10 \<le> lo'" if "(k, lo') \<in> set (minAllocations su)" for k lo'
    using forEachId_entry[OF lo, of k lo'] that by (auto simp: su)
  show "hi' \<le> totalBudget d * (4 / 10)" if "(k, hi') \<in> set (maxAllocations su)" for k hi'
    using forEachId_entry[OF hi, of k hi'] that by (auto simp: su)
qed

lemma optimizerSetupOf_bounds:
  assumes "distinct (map fst (subsectors (processedData r)))"
    and "optimizerSetupOf d r = Some su"
  shows "minAllocations su =
           map (\<lambda>(key, subsector). (key, max (totalExpenditures subsector * (1 / 100)) (1 / 10)))
             (subsectors (processedData r))"
    and "maxAllocations su =
           map (\<lambda>(key, subsector).
                  (key, min (totalExpenditures subsector * 2) (totalBudget d * (4 / 10))))
             (subsectors (processedData r))"
proof -
  let ?subs = "subsectors (processedData r)"
  let ?original = "map (\<lambda>(key, subsector). (key, totalExpenditures subsector)) ?subs"
  let ?ids = "map fst ?subs"
  from assms(2) obtain lows highs where
    lo: "forEachId ?ids (\<lambda>cid. map_option (\<lambda>a. max (a * (1 / 100)) (1 / 10)) (map_of ?original cid))
           = Some lows"
    and hi: "forEachId ?ids
           (\<lambda>cid. map_option (\<lambda>a. min (a * 2) (totalBudget d * (4 / 10))) (map_of ?original cid))
           = Some highs"
    and su: "su = \<lparr>budget = totalBudget d, componentIds = ?ids,
                   minAllocations = lows, maxAllocations = highs\<rparr>"
    by (auto simp: optimizerSetupOf_def Let_def split: Option.bind_splits)
  have look: "map_of ?original (fst x) = Some (totalExpenditures (snd x))" if "x \<in> set ?subs" for x
    using map_of_projection[OF assms(1), of "fst x" "snd x" totalExpenditures] that by simp
  have "lows = map (\<lambda>k. (k, the (map_option (\<lambda>a. max (a * (1 / 100)) (1 / 10)) (map_of ?original k)))) ?ids"
    using lo by (simp add: forEachId_Some_iff)
  also have "\<dots> = map (\<lambda>(key, subsector). (key, max (totalExpenditures subsector * (1 / 100)) (1 / 10))) ?subs"
    by (simp add: look case_prod_beta)
  finally show "minAllocations su =
           map (\<lambda>(key, subsector). (key, max (totalExpenditures subsector * (1 / 100)) (1 / 10))) ?subs"
    by (simp add: su)
  have "highs = map (\<lambda>k. (k, the (map_option (\<lambda>a. min (a * 2) (totalBudget d * (4 / 10))) (map_of ?original k)))) ?ids"
    using hi by (simp add: forEachId_Some_iff)
  also have "\<dots> = map (\<lambda>(key, subsector). (key, min (totalExpenditures subsector * 2) (totalBudget d * (4 / 10)))) ?subs"
    by (simp add: look case_prod_beta)
  finally show "maxAllocations su =
           map (\<lambda>(key, subsector).
                  (key, min (totalExpenditures subsector * 2) (totalBudget d * (4 / 10)))) ?subs"
    by (simp add: su)
qed

lemma tentativeAllocation_bounds:
  "tentativeAllocation rate b t g a lo hi \<le> hi"
  "lo \<le> hi \<Longrightarrow> lo \<le> tentativeAllocation rate b t g a lo hi"
  by (simp_all add: tentativeAllocation_def Let_def)

lemma rescaledAllocation_min: "lo \<le> rescaledAllocation f t lo"
  by (simp add: rescaledAllocation_def Let_def)

lemma tentativeAllocationsOf_bounds:
  assumes "tentativeAllocationsOf su st g = Some tentative" and "(k, v) \<in> set tentative"
  shows "\<exists>lo hi. map_of (minAllocations su) k = Some lo \<and> map_of (maxAllocations su) k = Some hi
           \<and> v \<le> hi \<and> (lo \<le> hi \<longrightarrow> lo \<le> v)"
  using forEachId_entry[OF assms[unfolded tentativeAllocationsOf_def]]
  by (auto split: Option.bind_splits simp: tentativeAllocation_bounds)

lemma rescaleToBudget_min:
  assumes "rescaleToBudget su tentative = Some scaled" and "(k, v) \<in> set scaled"
  shows "\<exists>lo. map_of (minAllocations su) k = Some lo \<and> lo \<le> v"
  using forEachId_entry[OF assms[unfolded rescaleToBudget_def Let_def]]
  by (auto split: Option.bind_splits simp: rescaledAllocation_min)

text \<open>
  Claim C2 (every returned allocation lies within its bounds) fails. In
  \<^const>\<open>underBudgetData\<close> both components hold \<open>10\<close>, within their bounds \<open>0.1\<close> and \<open>12\<close>;
  the final rescaling to the budget of \<open>30\<close> returns \<open>15\<close> for each. In
  \<^const>\<open>balancedData\<close> the allocations \<open>60\<close> and \<open>40\<close> use up the budget of \<open>100\<close>; the
  upper bounds are \<open>40\<close>, and the rescaling inside the iteration returns \<open>50\<close> for each.
\<close>

theorem returned_allocations_exceed_max:
  "map_option (\<lambda>(r, su, st). (minAllocations su, maxAllocations su))
     (optimizerLoopResult underBudgetData)
     = Some ([(''A'', 1 / 10), (''B'', 1 / 10)], [(''A'', 12), (''B'', 12)])
   \<and> map_option optimizedAllocations (optimizeResourceAllocation underBudgetData)
     = Some [(''A'', 15), (''B'', 15)]
   \<and> map_option (\<lambda>(r, su, st). (minAllocations su, maxAllocations su))
     (optimizerLoopResult balancedData)
     = Some ([(''A'', 6 / 10), (''B'', 4 / 10)], [(''A'', 40), (''B'', 40)])
   \<and> map_option optimizedAllocations (optimizeResourceAllocation balancedData)
     = Some [(''A'', 50), (''B'', 50)]"
  by code_simp

text \<open>
  Claim C2, amended: the bounds are \<open>min\<^sub>i = max (0.01 * original\<^sub>i) 0.1\<close> and
  \<open>max\<^sub>i = min (2 * original\<^sub>i) (0.4 * total_budget)\<close>, and inside an iteration every
  proposed allocation is clamped to at most \<open>max\<^sub>i\<close>, and to at least \<open>min\<^sub>i\<close> when
  \<open>min\<^sub>i \<le> max\<^sub>i\<close>; after the rescaling to the budget every allocation is at least
  \<open>min\<^sub>i\<close>. The redistribution of the remainder and the final rescaling clamp nothing,
  and nothing is stated about the bounds of what they return.
\<close>

theorem iteration_clamps_before_redistribution:
  assumes "distinct (map fst (subsectors d))"
    and "computeFSFVI d None = Some r"
    and "optimizerSetupOf d r = Some su"
    and "proposeAllocations su st g = Some allocations"
  shows "minAllocations su =
           map (\<lambda>(key, subsector). (key, max (totalExpenditures subsector * (1 / 100)) (1 / 10)))
             (subsectors d)
       \<and> maxAllocations su =
           map (\<lambda>(key, subsector).
                  (key, min (totalExpenditures subsector * 2) (totalBudget d * (4 / 10))))
             (subsectors d)
       \<and> (\<exists>tentative scaled.
             tentativeAllocationsOf su st g = Some tentative
           \<and> rescaleToBudget su tentative = Some scaled
           \<and> redistribute su scaled = Some allocations
           \<and> (\<forall>(k, v) \<in> set tentative.
                 \<exists>lo hi. map_of (minAllocations su) k = Some lo
                       \<and> map_of (maxAllocations su) k = Some hi
                       \<and> v \<le> hi \<and> (lo \<le> hi \<longrightarrow> lo \<le> v))
           \<and> (\<forall>(k, v) \<in> set scaled.
                 \<exists>lo. map_of (minAllocations su) k = Some lo \<and> lo \<le> v))"
proof -
  let ?P = "subsectors (processedData r)"
  have keys: "map fst ?P = map fst (subsectors d)" by (rule computeFSFVI_related(1)[OF assms(2)])
  have orig: "map (\<lambda>(key, subsector). (key, totalExpenditures subsector)) ?P
                = map (\<lambda>(key, subsector). (key, totalExpenditures subsector)) (subsectors d)"
    by (rule computeFSFVI_related(2)[OF assms(2)])
  have dist: "distinct (map fst ?P)" using assms(1) keys by simp
  have through: "map (\<lambda>(key, subsector). (key, h (totalExpenditures subsector))) xs
          = map (\<lambda>(key, a). (key, h a))
              (map (\<lambda>(key, subsector). (key, totalExpenditures subsector)) xs)"
    for h :: "real \<Rightarrow> real" and xs :: subsectorTable
    by (simp add: case_prod_unfold)
  have lo: "minAllocations su =
              map (\<lambda>(key, subsector). (key, max (totalExpenditures subsector * (1 / 100)) (1 / 10)))
                (subsectors d)"
    using optimizerSetupOf_bounds(1)[OF dist assms(3)]
      through[of "\<lambda>a. max (a * (1 / 100)) (1 / 10)" ?P]
      through[of "\<lambda>a. max (a * (1 / 100)) (1 / 10)" "subsectors d"] orig
    by simp
  have hi: "maxAllocations su =
              map (\<lambda>(key, subsector).
                     (key, min (totalExpenditures subsector * 2) (totalBudget d * (4 / 10))))
                (subsectors d)"
    using optimizerSetupOf_bounds(2)[OF dist assms(3)]
      through[of "\<lambda>a. min (a * 2) (totalBudget d * (4 / 10))" ?P]
      through[of "\<lambda>a. min (a * 2) (totalBudget d * (4 / 10))" "subsectors d"] orig
    by simp
  from assms(4) obtain tentative scaled where
    t: "tentativeAllocationsOf su st g = Some tentative"
    and s: "rescaleToBudget su tentative = Some scaled"
    and a: "redistribute su scaled = Some allocations"
    by (auto simp: proposeAllocations_def split: Option.bind_splits)
  have "\<forall>(k, v) \<in> set tentative.
          \<exists>lo hi. map_of (minAllocations su) k = Some lo \<and> map_of (maxAllocations su) k = Some hi
                \<and> v \<le> hi \<and> (lo \<le> hi \<longrightarrow> lo \<le> v)"
    using tentativeAllocationsOf_bounds[OF t] by blast
  moreover have "\<forall>(k, v) \<in> set scaled. \<exists>lo. map_of (minAllocations su) k = Some lo \<and> lo \<le> v"
    using rescaleToBudget_min[OF s] by blast
  ultimately have "\<exists>tentative scaled.
             tentativeAllocationsOf su st g = Some tentative
           \<and> rescaleToBudget su tentative = Some scaled
           \<and> redistribute su scaled = Some allocations
           \<and> (\<forall>(k, v) \<in> set tentative.
                 \<exists>lo hi. map_of (minAllocations su) k = Some lo
                       \<and> map_of (maxAllocations su) k = Some hi
                       \<and> v \<le> hi \<and> (lo \<le> hi \<longrightarrow> lo \<le> v))
           \<and> (\<forall>(k, v) \<in> set scaled.
                 \<exists>lo. map_of (minAllocations su) k = Some lo \<and> lo \<le> v)"
    using t s a by blast
  with lo hi show ?thesis by (intro conjI)
qed

theorem iteration_clamps_before_redistribution_witness:
  "\<exists>r su g allocations.
       distinct (map fst (subsectors balancedData))
     \<and> computeFSFVI balancedData None = Some r
     \<and> optimizerSetupOf balancedData r = Some su
     \<and> proposeAllocations su (initialStateOf r) g = Some allocations
     \<and> minAllocations su =
           map (\<lambda>(key, subsector). (key, max (totalExpenditures subsector * (1 / 100)) (1 / 10)))
             (subsectors balancedData)
     \<and> maxAllocations su =
           map (\<lambda>(key, subsector).
                  (key, min (totalExpenditures subsector * 2) (totalBudget balancedData * (4 / 10))))
             (subsectors balancedData)
     \<and> (\<exists>tentative scaled.
             tentativeAllocationsOf su (initialStateOf r) g = Some tentative
           \<and> rescaleToBudget su tentative = Some scaled
           \<and> redistribute su scaled = Some allocations
           \<and> (\<forall>(k, v) \<in> set tentative.
                 \<exists>lo hi. map_of (minAllocations su) k = Some lo
                       \<and> map_of (maxAllocations su) k = Some hi
                       \<and> v \<le> hi \<and> (lo \<le> hi \<longrightarrow> lo \<le> v))
           \<and> (\<forall>(k, v) \<in> set scaled.
                 \<exists>lo. map_of (minAllocations su) k = Some lo \<and> lo \<le> v))"
proof -
  have h1: "distinct (map fst (subsectors balancedData))" by code_simp
  have "\<not> Option.is_none
          (do { r \<leftarrow> computeFSFVI balancedData None;
                su \<leftarrow> optimizerSetupOf balancedData r;
                g \<leftarrow> gradientsOf su (initialStateOf r);
                proposeAllocations su (initialStateOf r) g })"
    by code_simp
  then obtain r su g allocations where
    h2: "computeFSFVI balancedData None = Some r"
    and h3: "optimizerSetupOf balancedData r = Some su"
    and h4: "proposeAllocations su (initialStateOf r) g = Some allocations"
    by (auto simp: Option.is_none_def split: Option.bind_splits)
  from iteration_clamps_before_redistribution[OF h1 h2 h3 h4] h1 h2 h3 h4
  show ?thesis by blast
qed

lemma balanced_example_tables:
  "map_option (\<lambda>(tentative, scaled). (tentative, scaled))
     (do { r \<leftarrow> computeFSFVI balancedData None;
           su \<leftarrow> optimizerSetupOf balancedData r;
           g \<leftarrow> gradientsOf su (initialStateOf r);
           tentative \<leftarrow> tentativeAllocationsOf su (initialStateOf r) g;
           scaled \<leftarrow> rescaleToBudget su tentative;
           Some (tentative, scaled) })
     = Some ([(''A'', 40), (''B'', 40)], [(''A'', 50), (''B'', 50)])"
  by code_simp

section \<open>Zero gradients\<close>

lemma finalAllocationsOf_Some:
  assumes "map fst (currentAllocations st) = componentIds su"
    and "distinct (componentIds su)"
    and "sum_list (map snd (currentAllocations st)) \<noteq> 0"
  shows "finalAllocationsOf su st =
           Some (map (\<lambda>(k, a). (k, a * (budget su / sum_list (map snd (currentAllocations st)))))
                   (currentAllocations st))"
proof -
  let ?cur = "currentAllocations st"
  let ?f = "budget su / sum_list (map snd ?cur)"
  have "forEachId (componentIds su)
          (\<lambda>cid. do { finalScaleFactor \<leftarrow> divide_js (budget su) (sum_list (map snd ?cur));
                      a \<leftarrow> map_of ?cur cid;
                      Some (a * finalScaleFactor) })
        = Some (map (\<lambda>k. (k, the (map_of ?cur k) * ?f)) (componentIds su))"
  proof (rule forEachId_SomeI)
    fix k assume "k \<in> set (componentIds su)"
    then have "k \<in> set (map fst ?cur)" using assms(1) by simp
    from map_of_keys_Some[OF this] obtain v where "map_of ?cur k = Some v" by blast
    then show "do { finalScaleFactor \<leftarrow> divide_js (budget su) (sum_list (map snd ?cur));
                    a \<leftarrow> map_of ?cur k;
                    Some (a * finalScaleFactor) } = Some (the (map_of ?cur k) * ?f)"
      using assms(3) by (simp add: divide_js_def)
  qed
  moreover have "map (\<lambda>k. (k, the (map_of ?cur k) * ?f)) (componentIds su)
                   = map (\<lambda>(k, a). (k, a * ?f)) ?cur"
    using map_lookup_own_keys[of ?cur "\<lambda>a. a * ?f"] assms(1,2) by simp
  ultimately show ?thesis by (simp add: finalAllocationsOf_def Let_def)
qed

lemma withVulnerability_Some:
  assumes "sensitivityOK c"
  shows "\<exists>c'. withVulnerability a (c\<lparr>totalExpenditures := a\<rparr>) = Some c' \<and> sensitivityOK c'"
proof -
  from assms obtain s where s: "sensitivityParameter c = Some s" "0 < s"
    by (auto simp: sensitivityOK_def split: option.splits)
  have "0 \<le> s * max 0 a" using s(2) by simp
  then have "1 + s * max 0 a \<noteq> 0" by linarith
  then show ?thesis
    using s by (simp add: withVulnerability_def calculateComponentVulnerability_def Let_def
        divide_js_def sensitivityOK_def)
qed

lemma updateWorkingData_Some:
  assumes "map fst working = ids" and "map fst allocations = ids"
    and "\<And>k c. (k, c) \<in> set working \<Longrightarrow> sensitivityOK c"
  shows "\<exists>working'. updateWorkingData ids working allocations = Some working'
           \<and> map fst working' = ids
           \<and> (\<forall>(k, c) \<in> set working'. sensitivityOK c)"
proof -
  let ?F = "\<lambda>cid. do { component \<leftarrow> map_of working cid;
                       a \<leftarrow> map_of allocations cid;
                       withVulnerability a (component\<lparr>totalExpenditures := a\<rparr>) }"
  have F: "\<exists>c'. ?F k = Some c' \<and> sensitivityOK c'" if "k \<in> set ids" for k
  proof -
    from that assms(1) obtain c where c: "map_of working k = Some c" "(k, c) \<in> set working"
      using map_of_keys_Some[of k working] by auto
    from that assms(2) obtain a where a: "map_of allocations k = Some a"
      using map_of_keys_Some[of k allocations] by auto
    from withVulnerability_Some[OF assms(3)[OF c(2)], of a] c(1) a show ?thesis by auto
  qed
  then have "\<forall>k \<in> set ids. ?F k \<noteq> None" by auto
  then have u: "updateWorkingData ids working allocations = Some (map (\<lambda>k. (k, the (?F k))) ids)"
    by (simp add: updateWorkingData_def forEachId_Some_iff)
  have "map fst (map (\<lambda>k. (k, the (?F k))) ids) = ids" by (simp add: comp_def)
  moreover have "\<forall>(k, c) \<in> set (map (\<lambda>k. (k, the (?F k))) ids). sensitivityOK c"
  proof -
    have "sensitivityOK (the (?F k))" if "k \<in> set ids" for k
    proof -
      from F[OF that] obtain c' where "?F k = Some c'" "sensitivityOK c'" by blast
      then show ?thesis by simp
    qed
    then show ?thesis by auto
  qed
  ultimately show ?thesis using u by blast
qed

lemma maxIterations_Suc: "maxIterations = Suc 99"
  by (simp add: maxIterations_def)

lemma optimizationLoop_maxIterations:
  "optimizationLoop su maxIterations st =
     (if stillImproving st then
        (case optimizerIteration su st of
           None \<Rightarrow> None
         | Some (NoImprovementPossible st') \<Rightarrow> Some st'
         | Some (Iterated st') \<Rightarrow> optimizationLoop su 99 st')
      else Some st)"
  unfolding maxIterations_Suc by (rule optimizationLoop.simps(2))

lemma stillImproving_initialStateOf: "stillImproving (initialStateOf r)"
  by (simp add: stillImproving_def initialStateOf_def)

text \<open>
  Claim C5 (with all gradients zero at the first iteration the original allocations are
  returned unchanged) fails: the loop is left at once, but the final rescaling to the
  budget still runs. In \<^const>\<open>halfBudgetData\<close> no component has a gap, so both gradients
  are \<open>0\<close>; the allocations \<open>10\<close> and \<open>10\<close> are returned as \<open>5\<close> and \<open>5\<close>, the budget
  being \<open>10\<close>.
\<close>

theorem zero_gradient_still_rescales:
  "initialGradientsOf halfBudgetData = Some [(''A'', 0), (''B'', 0)]
   \<and> map_option (\<lambda>r. (originalAllocations r, optimizedAllocations r))
       (optimizeResourceAllocation halfBudgetData)
     = Some ([(''A'', 10), (''B'', 10)], [(''A'', 5), (''B'', 5)])"
  by code_simp

text \<open>
  Claim C5, amended: when the gradients of the first iteration are all zero (a total
  magnitude of \<open>0\<close>) and the original allocations do not sum to \<open>0\<close>, the optimizer
  leaves the loop at once and returns every original allocation multiplied by
  \<open>total_budget / \<Sum> original\<close>; so it returns the original allocations unchanged exactly
  when they already sum to the budget.
\<close>

theorem zero_gradient_returns_rescaled_original:
  assumes "distinct (map fst (subsectors d))"
    and "initialGradientsOf d = Some g"
    and "totalGradientMagnitudeOf g = 0"
    and "sum_list (map (\<lambda>(key, subsector). totalExpenditures subsector) (subsectors d)) \<noteq> 0"
  shows "\<exists>res. optimizeResourceAllocation d = Some res
           \<and> originalAllocations res
               = map (\<lambda>(key, subsector). (key, totalExpenditures subsector)) (subsectors d)
           \<and> optimizedAllocations res
               = map (\<lambda>(key, a). (key, a * (totalBudget d
                      / sum_list (map (\<lambda>(key, subsector). totalExpenditures subsector) (subsectors d)))))
                   (originalAllocations res)"
proof -
  from assms(2) obtain r su where r: "computeFSFVI d None = Some r"
    and su: "optimizerSetupOf d r = Some su"
    and g: "gradientsOf su (initialStateOf r) = Some g"
    by (auto simp: initialGradientsOf_def split: Option.bind_splits)
  let ?P = "subsectors (processedData r)"
  let ?orig = "map (\<lambda>(key, subsector). (key, totalExpenditures subsector)) (subsectors d)"
  let ?st1 = "(initialStateOf r)\<lparr>prevFSFVI := Some (currentFSFVI (initialStateOf r))\<rparr>"
  let ?total = "sum_list (map (\<lambda>(key, subsector). totalExpenditures subsector) (subsectors d))"
  have keys: "map fst ?P = map fst (subsectors d)" by (rule computeFSFVI_related(1)[OF r])
  have orig: "map (\<lambda>(key, subsector). (key, totalExpenditures subsector)) ?P = ?orig"
    by (rule computeFSFVI_related(2)[OF r])
  have ids: "componentIds su = map fst (subsectors d)"
    using optimizerSetupOf_SomeD(2)[OF su] keys by simp
  have it: "optimizerIteration su (initialStateOf r) = Some (NoImprovementPossible ?st1)"
    using g assms(3) by (simp add: optimizerIteration_def Let_def)
  have loop: "optimizationLoop su maxIterations (initialStateOf r) = Some ?st1"
    using it stillImproving_initialStateOf by (simp add: optimizationLoop_maxIterations)
  have l: "optimizerLoopResult d = Some (r, su, ?st1)"
    using r su loop by (simp add: optimizerLoopResult_def)
  have cur: "currentAllocations ?st1 = ?orig" using orig by (simp add: initialStateOf_def)
  have ck: "map fst (currentAllocations ?st1) = componentIds su"
    unfolding cur ids by (simp add: comp_def case_prod_unfold)
  have sm: "sum_list (map snd (currentAllocations ?st1)) = ?total"
    unfolding cur by (simp add: comp_def case_prod_unfold)
  have dist: "distinct (componentIds su)" using assms(1) ids by simp
  have nz: "sum_list (map snd (currentAllocations ?st1)) \<noteq> 0" using assms(4) sm by simp
  have fin: "finalAllocationsOf su ?st1
               = Some (map (\<lambda>(k, a). (k, a * (budget su / sum_list (map snd (currentAllocations ?st1)))))
                        (currentAllocations ?st1))"
    using ck dist nz by (rule finalAllocationsOf_Some)
  let ?final = "map (\<lambda>(k, a). (k, a * (totalBudget d / ?total))) ?orig"
  from fin have "finalAllocationsOf su ?st1
      = Some (map (\<lambda>(k, a). (k, a * (totalBudget d / ?total))) (currentAllocations ?st1))"
    by (simp only: sm optimizerSetupOf_SomeD(1)[OF su])
  then have fin': "finalAllocationsOf su ?st1 = Some ?final"
    by (simp only: cur)
  have "\<exists>working'. updateWorkingData (componentIds su) (workingSubsectors ?st1) ?final = Some working'
           \<and> map fst working' = componentIds su \<and> (\<forall>(k, c) \<in> set working'. sensitivityOK c)"
  proof (rule updateWorkingData_Some)
    show "map fst (workingSubsectors ?st1) = componentIds su"
      using keys ids by (simp add: initialStateOf_def)
    show "map fst ?final = componentIds su" by (simp add: ids comp_def case_prod_unfold)
    show "sensitivityOK c" if "(k, c) \<in> set (workingSubsectors ?st1)" for k c
      using computeFSFVI_related(3)[OF r, of k c] that by (simp add: initialStateOf_def)
  qed
  then obtain working' where
    w: "updateWorkingData (componentIds su) (workingSubsectors ?st1) ?final = Some working'"
    by blast
  have "optimizeResourceAllocation d =
          Some \<lparr>originalFSFVI = fsfviValue r, optimizedFSFVI = calculateFSFVI working',
                originalAllocations = ?orig, optimizedAllocations = ?final\<rparr>"
    using l fin' w orig by (simp add: optimizeResourceAllocation_def)
  then show ?thesis by simp
qed

theorem zero_gradient_returns_rescaled_original_witness:
  "distinct (map fst (subsectors halfBudgetData))
   \<and> initialGradientsOf halfBudgetData = Some [(''A'', 0), (''B'', 0)]
   \<and> totalGradientMagnitudeOf [(''A'', 0), (''B'', 0)] = 0
   \<and> sum_list (map (\<lambda>(key, subsector). totalExpenditures subsector)
                 (subsectors halfBudgetData)) \<noteq> 0
   \<and> (\<exists>res. optimizeResourceAllocation halfBudgetData = Some res
           \<and> originalAllocations res
               = map (\<lambda>(key, subsector). (key, totalExpenditures subsector))
                   (subsectors halfBudgetData)
           \<and> optimizedAllocations res
               = map (\<lambda>(key, a). (key, a * (totalBudget halfBudgetData
                      / sum_list (map (\<lambda>(key, subsector). totalExpenditures subsector)
                                    (subsectors halfBudgetData)))))
                   (originalAllocations res))"
proof -
  have h1: "distinct (map fst (subsectors halfBudgetData))" by code_simp
  have h2: "initialGradientsOf halfBudgetData = Some [(''A'', 0), (''B'', 0)]" by code_simp
  have h3: "totalGradientMagnitudeOf [(''A'', 0), (''B'', 0)] = 0"
    by (simp add: totalGradientMagnitudeOf_def)
  have h4: "sum_list (map (\<lambda>(key, subsector). totalExpenditures subsector)
                 (subsectors halfBudgetData)) \<noteq> 0"
    by code_simp
  from zero_gradient_returns_rescaled_original[OF h1 h2 h3 h4] h1 h2 h3 h4
  show ?thesis by blast
qed

section \<open>The budget constraint\<close>

lemma map_fst_addToEntry [simp]: "map fst (addToEntry x k tab) = map fst tab"
  by (induction tab) (auto simp: addToEntry_def)

lemma map_fst_fold_addToEntry [simp]: "map fst (fold (addToEntry x) ks tab) = map fst tab"
  by (induction ks arbitrary: tab) simp_all















end
